theory Spec2Isabelle
  imports Complex_Main "HOL-Library.Monad_Syntax"
begin

section \<open>The casadi matrices used by the transcription\<close>

text \<open>
  \<^verbatim>\<open>CasOCLegendreGaussRadau.cpp\<close> computes with casadi's \<^verbatim>\<open>DM\<close> (numeric) and
  \<^verbatim>\<open>MX\<close> (symbolic) matrices. casadi is a library outside the sources; the operations
  below are the ones the file calls, with the behaviour the library gives them. Both
  kinds are matrices with a number of rows
  (\<^verbatim>\<open>size1\<close>), a number of columns (\<^verbatim>\<open>size2\<close>) and entries; a \<^verbatim>\<open>DM\<close> converts
  implicitly to an \<^verbatim>\<open>MX\<close>. The entries are of a type \<open>'a\<close> with the arithmetic an
  operation needs: a commutative ring for the values that the symbolic entries of an
  \<^verbatim>\<open>MX\<close> denote, and the doubles of the next section, whose arithmetic rounds, for
  the entries of a \<^verbatim>\<open>DM\<close>. A one-by-one matrix is identified with its entry where the
  source uses it as a scalar. Indices are integers as in the source; the index
  expressions that the source forms are bounded by the sizes of the matrices they
  index (by \<^verbatim>\<open>m_numGridPoints\<close>, itself an \<^verbatim>\<open>int\<close>, for the grid), so no index
  arithmetic wraps around and the integers are unbounded here. An operation that
  raises in casadi (an index out of bounds, a dimension mismatch, a negative
  dimension) returns \<open>None\<close>.
\<close>

record 'a matrix =
  size1 :: int
  size2 :: int
  elem :: "int \<Rightarrow> int \<Rightarrow> 'a"

definition numel :: "'a matrix \<Rightarrow> int" where
  "numel m = size1 m * size2 m"

definition is_scalar :: "'a matrix \<Rightarrow> bool" where
  "is_scalar m \<longleftrightarrow> size1 m = 1 \<and> size2 m = 1"

text \<open>\<^verbatim>\<open>DM::zeros(nrow, ncol)\<close>, and \<^verbatim>\<open>DM(nrow, ncol)\<close> (all entries structurally zero).\<close>

definition zeros :: "int \<Rightarrow> int \<Rightarrow> ('a::zero) matrix option" where
  "zeros nrow ncol =
     (if nrow < 0 \<or> ncol < 0 then None
      else Some \<lparr>size1 = nrow, size2 = ncol, elem = (\<lambda>r c. 0)\<rparr>)"

text \<open>\<^verbatim>\<open>DM(std::vector<double>)\<close>: a column vector.\<close>

definition DM_of_vector :: "('a::zero) list \<Rightarrow> 'a matrix" where
  "DM_of_vector xs =
     \<lparr>size1 = int (length xs), size2 = 1,
      elem = (\<lambda>r c. if 0 \<le> r \<and> r < int (length xs) \<and> c = 0 then xs ! nat r else 0)\<rparr>"

text \<open>
  A scalar index into a dimension of length \<open>len\<close>: casadi accepts
  \<open>-len \<le> i < len\<close> and counts a negative index from the end.
\<close>

definition scalar_index :: "int \<Rightarrow> int \<Rightarrow> int option" where
  "scalar_index len i =
     (if - len \<le> i \<and> i < len then Some (if 0 \<le> i then i else i + len) else None)"

text \<open>
  \<^verbatim>\<open>Slice()\<close> (everything), \<^verbatim>\<open>Slice(start, stop)\<close> and a single index.
  \<open>slice_all s len\<close> is the first index selected and the number of indices, as
  \<^verbatim>\<open>Slice::all(len)\<close> computes them.
\<close>

datatype slice = All | Range int int | Index int

fun slice_all :: "slice \<Rightarrow> int \<Rightarrow> (int \<times> int) option" where
  "slice_all All len = Some (0, len)"
| "slice_all (Range a b) len =
     (let start = (if a < 0 then a + len else a);
          stop = (if b < 0 then b + len else b)
      in if len < stop \<or> start < 0 then None
         else if stop \<le> start then Some (start, 0)
         else Some (start, stop - start))"
| "slice_all (Index i) len =
     (case scalar_index len i of None \<Rightarrow> None | Some k \<Rightarrow> Some (k, 1))"

text \<open>\<^verbatim>\<open>m(i)\<close>: the entry at a linear (column-major) index.\<close>

definition get1 :: "'a matrix \<Rightarrow> int \<Rightarrow> 'a option" where
  "get1 m i =
     (case scalar_index (numel m) i of
        None \<Rightarrow> None
      | Some k \<Rightarrow> Some (elem m (k mod size1 m) (k div size1 m)))"

text \<open>\<^verbatim>\<open>m(i) = v\<close>.\<close>

definition set1 :: "'a matrix \<Rightarrow> int \<Rightarrow> 'a \<Rightarrow> 'a matrix option" where
  "set1 m i v =
     (case scalar_index (numel m) i of
        None \<Rightarrow> None
      | Some k \<Rightarrow>
          Some (m\<lparr>elem := (\<lambda>r c. if r = k mod size1 m \<and> c = k div size1 m then v
                                 else elem m r c)\<rparr>))"


text \<open>\<^verbatim>\<open>m(rr, cc)\<close>: the block of the selected rows and columns.\<close>

definition get_block :: "'a matrix \<Rightarrow> slice \<Rightarrow> slice \<Rightarrow> 'a matrix option" where
  "get_block m rr cc =
     (case slice_all rr (size1 m) of
        None \<Rightarrow> None
      | Some (r0, nr) \<Rightarrow>
          (case slice_all cc (size2 m) of
             None \<Rightarrow> None
           | Some (c0, nc) \<Rightarrow>
               Some \<lparr>size1 = nr, size2 = nc, elem = (\<lambda>r c. elem m (r0 + r) (c0 + c))\<rparr>))"

text \<open>
  \<^verbatim>\<open>m(rr, cc) = v\<close>: \<open>v\<close> must have the shape of the block; a scalar \<open>v\<close> fills the
  block, and a vector of the transposed shape is transposed.
\<close>

definition write_block :: "'a matrix \<Rightarrow> int \<Rightarrow> int \<Rightarrow> int \<Rightarrow> int \<Rightarrow> (int \<Rightarrow> int \<Rightarrow> 'a) \<Rightarrow> 'a matrix" where
  "write_block m r0 nr c0 nc f =
     m\<lparr>elem := (\<lambda>r c. if r0 \<le> r \<and> r < r0 + nr \<and> c0 \<le> c \<and> c < c0 + nc
                        then f (r - r0) (c - c0) else elem m r c)\<rparr>"

definition set_block :: "'a matrix \<Rightarrow> slice \<Rightarrow> slice \<Rightarrow> 'a matrix \<Rightarrow> 'a matrix option" where
  "set_block m rr cc v =
     (case slice_all rr (size1 m) of
        None \<Rightarrow> None
      | Some (r0, nr) \<Rightarrow>
          (case slice_all cc (size2 m) of
             None \<Rightarrow> None
           | Some (c0, nc) \<Rightarrow>
               if size1 v = nr \<and> size2 v = nc
                 then Some (write_block m r0 nr c0 nc (elem v))
               else if is_scalar v
                 then Some (write_block m r0 nr c0 nc (\<lambda>r c. elem v 0 0))
               else if size2 v = nr \<and> size1 v = nc \<and> min (size1 v) (size2 v) = 1
                 then Some (write_block m r0 nr c0 nc (\<lambda>r c. elem v c r))
               else None))"

text \<open>
  An elementwise binary operation: on equal shapes, or with a scalar operand that
  is combined with every entry of the other. Any other pair of shapes is reported
  as a failure.
\<close>

definition binary :: "('a \<Rightarrow> 'a \<Rightarrow> 'a) \<Rightarrow> 'a matrix \<Rightarrow> 'a matrix \<Rightarrow> 'a matrix option" where
  "binary f x y =
     (if size1 x = size1 y \<and> size2 x = size2 y
        then Some \<lparr>size1 = size1 x, size2 = size2 x,
                   elem = (\<lambda>r c. f (elem x r c) (elem y r c))\<rparr>
      else if is_scalar x
        then Some \<lparr>size1 = size1 y, size2 = size2 y,
                   elem = (\<lambda>r c. f (elem x 0 0) (elem y r c))\<rparr>
      else if is_scalar y
        then Some \<lparr>size1 = size1 x, size2 = size2 x,
                   elem = (\<lambda>r c. f (elem x r c) (elem y 0 0))\<rparr>
      else None)"

text \<open>A scalar times a matrix (\<^verbatim>\<open>h * xdot_i\<close>, \<^verbatim>\<open>m_legendreRoots[d] * (...)\<close>).\<close>

definition smult :: "('a::times) \<Rightarrow> 'a matrix \<Rightarrow> 'a matrix" where
  "smult a x = \<lparr>size1 = size1 x, size2 = size2 x, elem = (\<lambda>r c. a * elem x r c)\<rparr>"

text \<open>\<^verbatim>\<open>MX::mtimes(x, y)\<close>: the matrix product; elementwise when an operand is scalar.\<close>

definition mtimes :: "('a::comm_ring_1) matrix \<Rightarrow> 'a matrix \<Rightarrow> 'a matrix option" where
  "mtimes x y =
     (if is_scalar x \<or> is_scalar y then binary (*) x y
      else if size2 x = size1 y
        then Some \<lparr>size1 = size1 x, size2 = size2 y,
                   elem = (\<lambda>r c. \<Sum>k = 0..<size2 x. elem x r k * elem y k c)\<rparr>
      else None)"

text \<open>\<^verbatim>\<open>v[i]\<close> on a \<^verbatim>\<open>std::vector\<close>; an index out of range (undefined in C++) fails.\<close>

definition vector_at :: "'a list \<Rightarrow> int \<Rightarrow> 'a option" where
  "vector_at xs i = (if 0 \<le> i \<and> i < int (length xs) then Some (xs ! nat i) else None)"

section \<open>IEEE doubles\<close>

text \<open>
  The entries of a \<^verbatim>\<open>casadi::DM\<close> are IEEE 754 binary64 numbers. A double is
  represented by the rational number it stands for. Sums, differences and products are
  the exact results rounded to the nearest representable number, ties to the even
  significand. Infinities, NaN and the sign of zero are outside the model: a result
  whose magnitude reaches \<open>2\<^sup>1\<^sup>0\<^sup>2\<^sup>4\<close>, which IEEE arithmetic turns into an infinity, is
  not a representable number here.
\<close>

datatype double = Double (value_of: rat)

text \<open>
  \<open>binade n a\<close> is the exponent \<open>e\<close> with \<open>2\<^sup>e \<le> a < 2\<^sup>e\<^sup>+\<^sup>1\<close> of a positive \<open>a\<close>, searched
  for in at most \<open>n\<close> steps.
\<close>

fun binade :: "nat \<Rightarrow> rat \<Rightarrow> int" where
  "binade 0 a = 0"
| "binade (Suc n) a =
     (if 2 \<le> a then binade n (a / 2) + 1
      else if a < 1 then binade n (a * 2) - 1
      else 0)"

definition pow2 :: "int \<Rightarrow> rat" where
  "pow2 e = (if 0 \<le> e then 2 ^ nat e else 1 / 2 ^ nat (- e))"

text \<open>The nearest integer, a tie going to the even one.\<close>

definition round_half_even :: "rat \<Rightarrow> int" where
  "round_half_even q =
     (let f = \<lfloor>q\<rfloor>; r = q - of_int f
      in if r < 1 / 2 then f
         else if 1 / 2 < r then f + 1
         else if even f then f else f + 1)"

text \<open>
  Rounding to binary64: 53 significant bits in the binade of the number, and the fixed
  spacing \<open>2\<^sup>-\<^sup>1\<^sup>0\<^sup>7\<^sup>4\<close> below \<open>2\<^sup>-\<^sup>1\<^sup>0\<^sup>2\<^sup>2\<close> (subnormal numbers).
\<close>

definition fl :: "rat \<Rightarrow> rat" where
  "fl x =
     (if x = 0 then 0
      else let e = binade 1100 \<bar>x\<bar>;
               ulp = pow2 (max (e - 52) (- 1074))
           in sgn x * of_int (round_half_even (\<bar>x\<bar> / ulp)) * ulp)"



instantiation double :: "{zero, one, plus, minus, times}"
begin

definition zero_double :: double where
  "zero_double = Double 0"

definition one_double :: double where
  "one_double = Double 1"

definition plus_double :: "double \<Rightarrow> double \<Rightarrow> double" where
  "plus_double x y = Double (fl (value_of x + value_of y))"

definition minus_double :: "double \<Rightarrow> double \<Rightarrow> double" where
  "minus_double x y = Double (fl (value_of x - value_of y))"

definition times_double :: "double \<Rightarrow> double \<Rightarrow> double" where
  "times_double x y = Double (fl (value_of x * value_of y))"

instance ..

end


section \<open>Loops\<close>

text \<open>
  \<^verbatim>\<open>for (int i = lo; i < n; ++i) body\<close>, the body acting on the data the loop
  updates; a failing body ends the loop with the failure.
\<close>

function for_loop :: "int \<Rightarrow> int \<Rightarrow> (int \<Rightarrow> 's \<Rightarrow> 's option) \<Rightarrow> 's \<Rightarrow> 's option" where
  "for_loop i n body s =
     (if i < n
      then (case body i s of None \<Rightarrow> None | Some s' \<Rightarrow> for_loop (i + 1) n body s')
      else Some s)"
  by pat_completeness auto
termination
  by (relation "measure (\<lambda>(i, n, body, s). nat (n - i))") auto

declare for_loop.simps [simp del]

section \<open>The Legendre-Gauss-Radau transcription\<close>

text \<open>
  The members of \<^verbatim>\<open>CasOC::LegendreGaussRadau\<close> (and of its base class) that the
  functions of \<^verbatim>\<open>CasOCLegendreGaussRadau.cpp\<close> read. The class declaration and the
  constructor that fills the members are not part of the sources, so the members
  are fields of a record and nothing is assumed about them in the definitions.
\<close>

record 'a transcription =
  getMesh :: "'a list"
  getInterpolateControlMidpoints :: bool
  getInterpolateMultiplierMidpoints :: bool
  getNumStates :: int
  getNumControls :: int
  getNumMultipliers :: int
  m_numMeshPoints :: int
  m_numMeshIntervals :: int
  m_numGridPoints :: int
  m_degree :: int
  m_times :: "'a matrix"
  m_quadratureCoefficients :: "'a matrix"
  m_differentiationMatrix :: "'a matrix"
  m_legendreRoots :: "'a list"


text \<open>\<^verbatim>\<open>createMeshIndicesImpl\<close>.\<close>

definition createMeshIndicesImpl :: "('a::comm_ring_1) transcription \<Rightarrow> 'a matrix option" where
  "createMeshIndicesImpl E =
     do {
       indices \<leftarrow> zeros 1 (m_numGridPoints E);
       indices \<leftarrow> for_loop 0 (m_numMeshIntervals E)
                    (\<lambda>imesh indices. set1 indices (imesh * m_degree E) 1) indices;
       set1 indices (m_numGridPoints E - 1) 1
     }"

text \<open>
  \<^verbatim>\<open>calcDefectsImpl\<close>. \<open>x\<close> is the \<^verbatim>\<open>MXVector\<close> of the state samples, one matrix per
  mesh interval; \<open>defects\<close> is the output argument, returned updated.
\<close>

definition calcDefectsImpl ::
  "('a::comm_ring_1) transcription \<Rightarrow> 'a matrix list \<Rightarrow> 'a matrix \<Rightarrow> 'a matrix \<Rightarrow> 'a matrix option" where
  "calcDefectsImpl E x xdot defects =
     (let NS = getNumStates E in
      for_loop 0 (m_numMeshIntervals E)
        (\<lambda>imesh defects.
           let igrid = imesh * m_degree E in
           do {
             t1 \<leftarrow> get1 (m_times E) (igrid + m_degree E);
             t0 \<leftarrow> get1 (m_times E) igrid;
             let h = t1 - t0;
             x_imesh \<leftarrow> vector_at x imesh;
             x_i \<leftarrow> get_block x_imesh All (Range 0 (m_degree E + 1));
             xdot_i \<leftarrow> get_block xdot All (Range (igrid + 1) (igrid + m_degree E + 1));
             product \<leftarrow> mtimes x_i (m_differentiationMatrix E);
             residual \<leftarrow> binary (-) (smult h xdot_i) product;
             for_loop 0 (m_degree E)
               (\<lambda>d defects.
                  do {
                    column \<leftarrow> get_block residual All (Index d);
                    set_block defects (Range (d * NS) ((d + 1) * NS)) (Index imesh) column
                  })
               defects
           })
        defects)"

text \<open>
  \<^verbatim>\<open>calcInterpolatingVariables\<close>, and the two operations that call it when their class
  of variables has a nonzero count and its flag is set (\<^verbatim>\<open>count && flag\<close> in the
  source). \<open>interpVariables\<close> is the output argument, returned updated.
\<close>

definition calcInterpolatingVariables ::
  "('a::comm_ring_1) transcription \<Rightarrow> 'a matrix \<Rightarrow> 'a matrix \<Rightarrow> 'a matrix option" where
  "calcInterpolatingVariables E variables interpVariables =
     for_loop 0 (m_numMeshIntervals E)
       (\<lambda>imesh interpVariables.
          let igrid = imesh * m_degree E in
          do {
            x_i \<leftarrow> get_block variables All (Index igrid);
            x_ip1 \<leftarrow> get_block variables All (Index (igrid + m_degree E));
            for_loop 0 (m_degree E - 1)
              (\<lambda>d interpVariables.
                 do {
                   x_t \<leftarrow> get_block variables All (Index (igrid + d + 1));
                   root \<leftarrow> vector_at (m_legendreRoots E) d;
                   diff \<leftarrow> binary (-) x_ip1 x_i;
                   line \<leftarrow> binary (+) (smult root diff) x_i;
                   residual \<leftarrow> binary (-) x_t line;
                   set_block interpVariables All (Index (imesh * (m_degree E - 1) + d)) residual
                 })
              interpVariables
          })
       interpVariables"

definition calcInterpolatingControlsImpl ::
  "('a::comm_ring_1) transcription \<Rightarrow> 'a matrix \<Rightarrow> 'a matrix \<Rightarrow> 'a matrix option" where
  "calcInterpolatingControlsImpl E controls interpControls =
     (if getNumControls E \<noteq> 0 \<and> getInterpolateControlMidpoints E
      then calcInterpolatingVariables E controls interpControls
      else Some interpControls)"

definition calcInterpolatingMultipliersImpl ::
  "('a::comm_ring_1) transcription \<Rightarrow> 'a matrix \<Rightarrow> 'a matrix \<Rightarrow> 'a matrix option" where
  "calcInterpolatingMultipliersImpl E multipliers interpMultipliers =
     (if getNumMultipliers E \<noteq> 0 \<and> getInterpolateMultiplierMidpoints E
      then calcInterpolatingVariables E multipliers interpMultipliers
      else Some interpMultipliers)"

section \<open>Component outputs\<close>

text \<open>
  \<^verbatim>\<open>ComponentOutput.h\<close>. A \<^verbatim>\<open>SimTK::Stage\<close> is represented by its level, a number;
  stages are compared by level. A \<^verbatim>\<open>SimTK::State\<close> is any record with the stage its
  system has been realized to. Objects that are pointed to (the owning component, the
  output a channel belongs to) are represented by addresses; a
  \<^verbatim>\<open>SimTK::ReferencePtr\<close> is an optional address, \<open>None\<close> being the null pointer.
\<close>

type_synonym stage = nat

type_synonym addr = nat

record state =
  getSystemStage :: stage

text \<open>
  The exceptions: OpenSim's \<^verbatim>\<open>Exception(message)\<close>,
  \<^verbatim>\<open>SimTK::Exception::StageTooLow(currentStage, targetStage, where)\<close>, the
  \<^verbatim>\<open>std::bad_function_call\<close> of calling an empty \<^verbatim>\<open>std::function\<close>, and whatever
  else a bound output function raises.
\<close>

datatype exn =
    Exception string
  | StageTooLow stage stage string
  | BadFunctionCall
  | Raised string

text \<open>
  \<^verbatim>\<open>Output<T>::Channel\<close>: the cached result (\<open>None\<close> while nothing has been stored),
  the output the channel belongs to, and the channel's name.
\<close>

record 'T channel =
  channel_result :: "'T option"
  channel_output :: "addr option"
  channel_name :: string

text \<open>\<^verbatim>\<open>Channel(output, name)\<close>.\<close>

definition Channel :: "addr \<Rightarrow> string \<Rightarrow> 'T channel" where
  "Channel this_output nm =
     \<lparr>channel_result = None, channel_output = Some this_output, channel_name = nm\<rparr>"

text \<open>
  \<^verbatim>\<open>Output<T>\<close> with the members of \<^verbatim>\<open>AbstractOutput\<close>. The bound function is a
  \<^verbatim>\<open>std::function\<close>: it may be empty (\<open>None\<close>), and a call of it returns a value or
  raises.
\<close>

record ('s, 'T) output_T =
  name :: string
  dependsOnStage :: stage
  numSigFigs :: nat
  isList :: bool
  owner :: "addr option"
  result :: "'T option"
  outputFcn :: "(addr option \<Rightarrow> 's \<Rightarrow> string \<Rightarrow> exn + 'T) option"
  channels :: "string \<rightharpoonup> 'T channel"

text \<open>
  \<^verbatim>\<open>Output()\<close>: the default constructor. \<^verbatim>\<open>AbstractOutput()\<close> sets the stage to
  \<^verbatim>\<open>SimTK::Stage::Infinity\<close> (a parameter here: the enumeration is declared outside
  the sources) and the default member initializers give eight significant digits and
  \<^verbatim>\<open>_isList = false\<close>; the function is empty and there is no channel.
\<close>

definition Output_default :: "stage \<Rightarrow> ('s, 'T) output_T" where
  "Output_default infinity =
     \<lparr>name = [], dependsOnStage = infinity, numSigFigs = 8, isList = False, owner = None,
      result = None, outputFcn = None, channels = Map.empty\<rparr>"

text \<open>
  \<^verbatim>\<open>Output(name, outputFunction, dependsOnStage, isList)\<close>, constructing the object
  at the address \<open>this\<close>.
\<close>

definition Output :: "addr \<Rightarrow> string \<Rightarrow> (addr option \<Rightarrow> 's \<Rightarrow> string \<Rightarrow> exn + 'T) option \<Rightarrow>
    stage \<Rightarrow> bool \<Rightarrow> ('s, 'T) output_T" where
  "Output this nm outputFunction dependsOn isLst =
     \<lparr>name = nm, dependsOnStage = dependsOn, numSigFigs = 8, isList = isLst, owner = None,
      result = None, outputFcn = outputFunction,
      channels = (if \<not> isLst then [''one'' \<mapsto> Channel this ''one''] else Map.empty)\<rparr>"

text \<open>
  \<^verbatim>\<open>Output(const Output& source)\<close>, constructing the copy at the address \<open>this\<close>:
  the members of \<^verbatim>\<open>AbstractOutput\<close>, the function and the channels are copied, the
  cached result is not, and every channel's pointer is reset to the copy.
  \<open>copy_ptr\<close> is what copying a \<^verbatim>\<open>SimTK::ReferencePtr\<close> yields (the class is declared
  outside the sources).
\<close>

definition Output_copy :: "(addr option \<Rightarrow> addr option) \<Rightarrow> addr \<Rightarrow> ('s, 'T) output_T \<Rightarrow> ('s, 'T) output_T" where
  "Output_copy copy_ptr this source =
     \<lparr>name = name source, dependsOnStage = dependsOnStage source, numSigFigs = numSigFigs source,
      isList = isList source, owner = copy_ptr (owner source),
      result = None, outputFcn = outputFcn source,
      channels = (\<lambda>k. case channels source k of
                         None \<Rightarrow> None
                       | Some c \<Rightarrow> Some (c\<lparr>channel_output := Some this\<rparr>))\<rparr>"

text \<open>
  \<^verbatim>\<open>clearChannels()\<close> and \<^verbatim>\<open>addChannel(channelName)\<close> on the output at the address
  \<open>this\<close>: the exception raised, if any, and the object afterwards.
\<close>

definition clearChannels :: "('s, 'T) output_T \<Rightarrow> exn option \<times> ('s, 'T) output_T" where
  "clearChannels out =
     (if \<not> isList out then (Some (Exception ''TODO''), out)
      else (None, out\<lparr>channels := Map.empty\<rparr>))"

definition addChannel :: "addr \<Rightarrow> ('s, 'T) output_T \<Rightarrow> string \<Rightarrow> exn option \<times> ('s, 'T) output_T" where
  "addChannel this out channelName =
     (if \<not> isList out then (Some (Exception ''TODO''), out)
      else (None, out\<lparr>channels := (channels out)(channelName \<mapsto> Channel this channelName)\<rparr>))"

text \<open>
  \<^verbatim>\<open>getValue(state)\<close>. \<open>nan\<close> is the value of type \<open>T\<close> that \<^verbatim>\<open>SimTK::NaN\<close> converts
  to. The result is the value returned or the exception raised, the object afterwards
  (\<^verbatim>\<open>_result\<close> is \<^verbatim>\<open>mutable\<close>), and the calls of the bound function that were made,
  each with its arguments.
\<close>

definition getValue :: "'T \<Rightarrow> ('z state_scheme, 'T) output_T \<Rightarrow> 'z state_scheme \<Rightarrow>
    (exn + 'T) \<times> ('z state_scheme, 'T) output_T \<times> (addr option \<times> 'z state_scheme \<times> string) list" where
  "getValue nan out st =
     (let out1 = out\<lparr>result := Some nan\<rparr> in
      if isList out then (Inl (Exception ''TODO''), out1, [])
      else if getSystemStage st < dependsOnStage out
        then (Inl (StageTooLow (getSystemStage st) (dependsOnStage out) ''Output::getValue(state)''),
              out1, [])
      else (case outputFcn out of
              None \<Rightarrow> (Inl BadFunctionCall, out1, [])
            | Some f \<Rightarrow>
                (case f (owner out) st [] of
                   Inl e \<Rightarrow> (Inl e, out1, [(owner out, st, [])])
                 | Inr v \<Rightarrow> (Inr v, out1\<lparr>result := Some v\<rparr>, [(owner out, st, [])]))))"

text \<open>
  Copy assignment, \<^verbatim>\<open>Output::operator=(const Output& source)\<close>, for an object at the
  address \<open>this\<close> and a source at the address \<open>src\<close>. The operator returns at once on
  self-assignment; otherwise it first calls \<^verbatim>\<open>AbstractOutput::operator=\<close>, whose body is
  the virtual call \<^verbatim>\<open>compatibleAssign(o)\<close>, which for a source of the same type
  (\<^verbatim>\<open>isA(o)\<close> holds) executes \<^verbatim>\<open>*this = downcast(o)\<close>, the copy assignment again.
  The three functions call each other, so they are one function with the callee as
  its first argument; \<open>None\<close> is a call that does not return.
\<close>

datatype assignment = OutputAssign | AbstractOutputAssign | CompatibleAssign

partial_function (option) assign ::
  "assignment \<Rightarrow> addr \<Rightarrow> ('s, 'T) output_T \<Rightarrow> addr \<Rightarrow> ('s, 'T) output_T \<Rightarrow> (exn + ('s, 'T) output_T) option" where
  "assign callee this self src source =
     (case callee of
        OutputAssign \<Rightarrow>
          if src = this then Some (Inr self)
          else Option.bind (assign AbstractOutputAssign this self src source)
                 (\<lambda>r. case r of
                         Inl e \<Rightarrow> Some (Inl e)
                       | Inr self' \<Rightarrow>
                           Some (Inr (self'\<lparr>outputFcn := outputFcn source,
                                        channels := (\<lambda>k. case channels source k of
                                                           None \<Rightarrow> None
                                                         | Some c \<Rightarrow> Some (c\<lparr>channel_output := Some this\<rparr>))\<rparr>)))
      | AbstractOutputAssign \<Rightarrow> assign CompatibleAssign this self src source
      | CompatibleAssign \<Rightarrow> assign OutputAssign this self src source)"

section \<open>The structure the transcription is built with\<close>



text \<open>
  Modelled from the spec: the shapes of the tables and arguments of the defect
  constraints. The grid times are a row of \<open>numGridPoints\<close> entries, the
  differentiation matrix is \<open>(d + 1) \<times> d\<close>, there is one \<open>numStates \<times> (d + 1)\<close> block of
  state samples per mesh interval, the derivative samples are
  \<open>numStates \<times> numGridPoints\<close>, and the output has room for the
  \<open>(d \<cdot> numStates) \<times> numMeshIntervals\<close> residuals.
\<close>

definition defect_shapes :: "'a transcription \<Rightarrow> 'a matrix list \<Rightarrow> 'a matrix \<Rightarrow> 'a matrix \<Rightarrow> bool" where
  "defect_shapes E x xdot defects \<longleftrightarrow>
     0 \<le> m_numMeshIntervals E \<and> 1 \<le> m_degree E \<and> 0 \<le> getNumStates E \<and>
     m_numGridPoints E = m_numMeshIntervals E * m_degree E + 1 \<and>
     size1 (m_times E) = 1 \<and> size2 (m_times E) = m_numGridPoints E \<and>
     size1 (m_differentiationMatrix E) = m_degree E + 1 \<and>
     size2 (m_differentiationMatrix E) = m_degree E \<and>
     int (length x) = m_numMeshIntervals E \<and>
     (\<forall>xi \<in> set x. size1 xi = getNumStates E \<and> size2 xi = m_degree E + 1) \<and>
     size1 xdot = getNumStates E \<and> size2 xdot = m_numGridPoints E \<and>
     m_degree E * getNumStates E \<le> size1 defects \<and> m_numMeshIntervals E \<le> size2 defects"

text \<open>
  Modelled from the spec: the shapes of the tables and arguments of the interpolation
  constraints. There are at least \<open>d - 1\<close> roots, the variables have one column per grid
  point, and the output has the rows of the variables and room for
  \<open>numMeshIntervals \<cdot> (d - 1)\<close> columns.
\<close>

definition interp_shapes :: "'a transcription \<Rightarrow> 'a matrix \<Rightarrow> 'a matrix \<Rightarrow> bool" where
  "interp_shapes E variables interpVariables \<longleftrightarrow>
     0 \<le> m_numMeshIntervals E \<and> 1 \<le> m_degree E \<and>
     m_numGridPoints E = m_numMeshIntervals E * m_degree E + 1 \<and>
     m_degree E - 1 \<le> int (length (m_legendreRoots E)) \<and>
     0 \<le> size1 variables \<and> size2 variables = m_numGridPoints E \<and>
     size1 interpVariables = size1 variables \<and>
     m_numMeshIntervals E * (m_degree E - 1) \<le> size2 interpVariables"

section \<open>The values the properties name\<close>

text \<open>The grid indices of the mesh-interval boundaries: \<open>0, d, 2d, \<dots>, numMeshIntervals \<cdot> d\<close>.\<close>

definition boundary_indices :: "int \<Rightarrow> int \<Rightarrow> int set" where
  "boundary_indices nmi d = (\<lambda>k. k * d) ` {0..nmi}"

text \<open>
  The entry of row \<open>s\<close> (a state) and column \<open>d\<close> (a local node) of the residual
  \<open>h \<cdot> xdot_interior - x_local \<cdot> D\<close> of interval \<open>imesh\<close>.
\<close>

definition defect_residual ::
  "('a::comm_ring_1) transcription \<Rightarrow> 'a matrix list \<Rightarrow> 'a matrix \<Rightarrow> int \<Rightarrow> int \<Rightarrow> int \<Rightarrow> 'a" where
  "defect_residual E x xdot imesh s d =
     (elem (m_times E) 0 (imesh * m_degree E + m_degree E) - elem (m_times E) 0 (imesh * m_degree E)) *
       elem xdot s (imesh * m_degree E + 1 + d) -
     (\<Sum>j = 0..<m_degree E + 1. elem (x ! nat imesh) s j * elem (m_differentiationMatrix E) j d)"

text \<open>
  The residual of the interior node \<open>k\<close> of interval \<open>imesh\<close> in row \<open>r\<close>: the sample
  minus the point of the straight line between the interval's boundary samples.
\<close>

definition interpolation_residual ::
  "('a::comm_ring_1) transcription \<Rightarrow> 'a matrix \<Rightarrow> int \<Rightarrow> int \<Rightarrow> int \<Rightarrow> 'a" where
  "interpolation_residual E variables imesh k r =
     elem variables r (imesh * m_degree E + k + 1) -
       (elem variables r (imesh * m_degree E) +
        m_legendreRoots E ! nat k *
          (elem variables r (imesh * m_degree E + m_degree E) - elem variables r (imesh * m_degree E)))"

text \<open>An output has exactly one channel, and the channel is named \<open>one\<close>.\<close>

definition one_channel :: "('s, 'T) output_T \<Rightarrow> bool" where
  "one_channel out \<longleftrightarrow>
     dom (channels out) = {''one''} \<and>
     (\<forall>c. channels out ''one'' = Some c \<longrightarrow> channel_name c = ''one'')"

section \<open>Loop invariants\<close>

text \<open>
  What holds of the data a loop updates when it has reached a given iteration: the
  indicator after \<open>j\<close> intervals, the coefficients after \<open>p\<close> entries, the interpolation
  residuals after \<open>p\<close> columns, and the defects after \<open>imesh\<close> intervals and \<open>d\<close> nodes.
\<close>

definition mesh_ind_inv :: "int \<Rightarrow> int \<Rightarrow> int \<Rightarrow> ('a::comm_ring_1) matrix \<Rightarrow> bool" where
  "mesh_ind_inv n d j m \<longleftrightarrow>
     size1 m = 1 \<and> size2 m = n \<and>
     (\<forall>i. elem m 0 i = (if \<exists>k. 0 \<le> k \<and> k < j \<and> i = k * d then 1 else 0))"



definition interp_inv ::
  "('a::comm_ring_1) transcription \<Rightarrow> 'a matrix \<Rightarrow> 'a matrix \<Rightarrow> int \<Rightarrow> 'a matrix \<Rightarrow> bool" where
  "interp_inv E variables old p out \<longleftrightarrow>
     size1 out = size1 old \<and> size2 out = size2 old \<and>
     (\<forall>r c. elem out r c =
        (if 0 \<le> r \<and> r < size1 old \<and> 0 \<le> c \<and> c < p
         then interpolation_residual E variables (c div (m_degree E - 1)) (c mod (m_degree E - 1)) r
         else elem old r c))"

definition defect_inv ::
  "('a::comm_ring_1) transcription \<Rightarrow> 'a matrix list \<Rightarrow> 'a matrix \<Rightarrow> 'a matrix \<Rightarrow> int \<Rightarrow> int \<Rightarrow> 'a matrix \<Rightarrow> bool" where
  "defect_inv E x xdot old imesh d out \<longleftrightarrow>
     size1 out = size1 old \<and> size2 out = size2 old \<and>
     (\<forall>r c. elem out r c =
        (if 0 \<le> c \<and> 0 \<le> r \<and>
            (c < imesh \<and> r < m_degree E * getNumStates E \<or> c = imesh \<and> r < d * getNumStates E)
         then defect_residual E x xdot c (r mod getNumStates E) (r div getNumStates E)
         else elem old r c))"

section \<open>Examples\<close>

text \<open>A row vector with the given entries.\<close>

definition row_vector :: "('a::zero) list \<Rightarrow> 'a matrix" where
  "row_vector xs =
     \<lparr>size1 = 1, size2 = int (length xs),
      elem = (\<lambda>r c. if r = 0 \<and> 0 \<le> c \<and> c < int (length xs) then xs ! nat c else 0)\<rparr>"

text \<open>
  The scenario of the specification for the mesh indicator: mesh \<open>[0, 0.5, 1]\<close> and
  degree 3, hence seven grid points. The roots, weights and times are decimal stand-ins
  for the degree's tables; the differentiation matrix, which the indicator does not
  read, is left zero.
\<close>

definition example_mesh3 :: "rat transcription" where
  "example_mesh3 =
     \<lparr>getMesh = [0, 1/2, 1],
      getInterpolateControlMidpoints = False,
      getInterpolateMultiplierMidpoints = False,
      getNumStates = 1, getNumControls = 1, getNumMultipliers = 0,
      m_numMeshPoints = 3, m_numMeshIntervals = 2, m_numGridPoints = 7, m_degree = 3,
      m_times = row_vector [0, 775255/10000000, 3224745/10000000, 1/2,
                            5775255/10000000, 8224745/10000000, 1],
      m_quadratureCoefficients = DM_of_vector [376403/1000000, 512486/1000000, 111111/1000000],
      m_differentiationMatrix = \<lparr>size1 = 4, size2 = 3, elem = (\<lambda>r c. 0)\<rparr>,
      m_legendreRoots = [155051/1000000, 644949/1000000, 1]\<rparr>"

text \<open>
  Mesh \<open>[0, 0.5, 1]\<close> and degree 2: the nodes of an interval are at the fractions
  \<open>1/3\<close> and \<open>1\<close>, the weights are \<open>3/4\<close> and \<open>1/4\<close>, and the differentiation matrix holds
  the derivatives of the Lagrange polynomials of the points \<open>0, 1/3, 1\<close> at the two
  nodes.
\<close>

definition example_mesh2 :: "rat transcription" where
  "example_mesh2 =
     \<lparr>getMesh = [0, 1/2, 1],
      getInterpolateControlMidpoints = True,
      getInterpolateMultiplierMidpoints = False,
      getNumStates = 1, getNumControls = 1, getNumMultipliers = 1,
      m_numMeshPoints = 3, m_numMeshIntervals = 2, m_numGridPoints = 5, m_degree = 2,
      m_times = row_vector [0, 1/6, 1/2, 2/3, 1],
      m_quadratureCoefficients = DM_of_vector [3/4, 1/4],
      m_differentiationMatrix =
        \<lparr>size1 = 3, size2 = 2,
         elem = (\<lambda>r c. if c = 0 then (if r = 0 then -2 else if r = 1 then 3/2 else 1/2)
                       else (if r = 0 then 2 else if r = 1 then -9/2 else 5/2))\<rparr>,
      m_legendreRoots = [1/3, 1]\<rparr>"

text \<open>
  Example arguments for the degree-2 transcription \<open>example_mesh2\<close>: one state with
  samples \<open>x(t) = t\<close> at the local grid points of the two intervals, derivative
  samples 1 except at the last grid point, and an output filled with sevens.
\<close>

definition example_x2 :: "rat matrix list" where
  "example_x2 = [row_vector [0, 1/6, 1/2], row_vector [1/2, 2/3, 1]]"

definition example_xdot2 :: "rat matrix" where
  "example_xdot2 = row_vector [1, 1, 1, 1, 3]"

definition example_defects2 :: "rat matrix" where
  "example_defects2 = \<lparr>size1 = 2, size2 = 2, elem = (\<lambda>r c. 7)\<rparr>"

definition example_defects_wide2 :: "rat matrix" where
  "example_defects_wide2 = \<lparr>size1 = 3, size2 = 3, elem = (\<lambda>r c. 7)\<rparr>"

definition example_controls2 :: "rat matrix" where
  "example_controls2 = row_vector [0, 1/2, 1, 3/2, 3]"

definition example_interp_wide2 :: "rat matrix" where
  "example_interp_wide2 = row_vector [7, 7, 9]"

text \<open>
  The scenario of the specification for the interpolation constraints: mesh \<open>[0, 1]\<close>,
  degree 4, one control whose boundary values are 0 and 1. The roots are decimal
  stand-ins for the degree's table; the tables the interpolation does not read are
  left zero.
\<close>

definition example_mesh4 :: "rat transcription" where
  "example_mesh4 =
     \<lparr>getMesh = [0, 1],
      getInterpolateControlMidpoints = True,
      getInterpolateMultiplierMidpoints = False,
      getNumStates = 1, getNumControls = 1, getNumMultipliers = 1,
      m_numMeshPoints = 2, m_numMeshIntervals = 1, m_numGridPoints = 5, m_degree = 4,
      m_times = row_vector [0, 88588/1000000, 409467/1000000, 787659/1000000, 1],
      m_quadratureCoefficients = \<lparr>size1 = 4, size2 = 1, elem = (\<lambda>r c. 0)\<rparr>,
      m_differentiationMatrix = \<lparr>size1 = 5, size2 = 4, elem = (\<lambda>r c. 0)\<rparr>,
      m_legendreRoots = [88588/1000000, 409467/1000000, 787659/1000000, 1]\<rparr>"

definition example_controls4 :: "rat matrix" where
  "example_controls4 = row_vector [0, 1/10, 2/5, 4/5, 1]"

definition example_interp4 :: "rat matrix" where
  "example_interp4 = row_vector [7, 7, 7]"





text \<open>
  A non-list output at the address 100 that depends on stage 5, owned by the component
  at the address 20 (\<^verbatim>\<open>setOwner\<close>); its function returns six times the level of the
  state's stage.
\<close>

definition example_output :: "(state, int) output_T" where
  "example_output =
     (Output 100 ''position'' (Some (\<lambda>component st channel. Inr (6 * int (getSystemStage st)))) 5 False)
       \<lparr>owner := Some 20\<rparr>"

text \<open>
  A non-list output at the address 101 whose \<^verbatim>\<open>std::function\<close> is empty, and one at the
  address 102 whose bound function raises; both depend on stage 5.
\<close>

definition example_unbound :: "(state, int) output_T" where
  "example_unbound = Output 101 ''unbound'' None 5 False"

definition example_raising :: "(state, int) output_T" where
  "example_raising =
     Output 102 ''raising'' (Some (\<lambda>component st channel. Inl (Raised ''no value''))) 5 False"

section \<open>Proofs\<close>

subsection \<open>Loops\<close>

lemma for_loop_rule:
  assumes "I lo s" and "lo \<le> hi"
    and "\<And>i t. lo \<le> i \<Longrightarrow> i < hi \<Longrightarrow> I i t \<Longrightarrow> \<exists>t'. body i t = Some t' \<and> I (i + 1) t'"
  shows "\<exists>s'. for_loop lo hi body s = Some s' \<and> I hi s'"
  using assms
proof (induction lo hi body s rule: for_loop.induct)
  case (1 i n body s)
  show ?case
  proof (cases "i < n")
    case False
    with "1.prems" show ?thesis by (simp add: for_loop.simps)
  next
    case True
    from "1.prems"(3)[of i s] True "1.prems"(1)
    obtain t where t: "body i s = Some t" "I (i + 1) t" by auto
    have "\<exists>s'. for_loop (i + 1) n body t = Some s' \<and> I n s'"
    proof (rule "1.IH"[OF True t(1) t(2)])
      show "i + 1 \<le> n" using True by simp
    next
      fix j u assume "i + 1 \<le> j" "j < n" "I j u"
      then show "\<exists>t'. body j u = Some t' \<and> I (j + 1) t'"
        using "1.prems"(3)[of j u] by simp
    qed
    then show ?thesis using True t(1) by (subst for_loop.simps) simp
  qed
qed

subsection \<open>The mesh indicator\<close>

lemma scalar_index_inrange: "0 \<le> i \<Longrightarrow> i < len \<Longrightarrow> scalar_index len i = Some i"
  by (simp add: scalar_index_def)

lemma set1_row:
  assumes "size1 m = 1" "0 \<le> i" "i < size2 m"
  shows "set1 m i v = Some (m\<lparr>elem := (\<lambda>r c. if r = 0 \<and> c = i then v else elem m r c)\<rparr>)"
  using assms by (simp add: set1_def numel_def scalar_index_inrange)

lemma mesh_ind_loop:
  assumes d: "1 \<le> d" and k: "0 \<le> nmi" and n: "n = nmi * d + 1"
  shows "\<exists>m. for_loop 0 nmi (\<lambda>imesh indices. set1 indices (imesh * d) 1)
             \<lparr>size1 = 1, size2 = n, elem = (\<lambda>r c. 0)\<rparr> = Some m \<and> mesh_ind_inv n d nmi (m :: ('a::comm_ring_1) matrix)"
proof (rule for_loop_rule[where I = "mesh_ind_inv n d"])
  show "mesh_ind_inv n d 0 \<lparr>size1 = 1, size2 = n, elem = (\<lambda>r c. 0::'a)\<rparr>"
    by (simp add: mesh_ind_inv_def)
  show "0 \<le> nmi" by fact
next
  fix i and t :: "'a matrix"
  assume i: "0 \<le> i" "i < nmi" and inv: "mesh_ind_inv n d i t"
  have "i * d \<le> (nmi - 1) * d" using i d by (intro mult_right_mono) auto
  then have lt: "i * d < n" using n d by (simp add: algebra_simps)
  have ge: "0 \<le> i * d" using i d by simp
  have s: "set1 t (i * d) 1 = Some (t\<lparr>elem := (\<lambda>r c. if r = 0 \<and> c = i * d then 1 else elem t r c)\<rparr>)"
    using inv lt ge by (intro set1_row) (auto simp: mesh_ind_inv_def)
  have "mesh_ind_inv n d (i + 1) (t\<lparr>elem := (\<lambda>r c. if r = 0 \<and> c = i * d then 1 else elem t r c)\<rparr>)"
    using inv i unfolding mesh_ind_inv_def
    apply simp
    apply (intro allI conjI impI)
     apply (rule exI[of _ i]) apply simp
    apply auto
    by (metis less_le not_less zless_add1_eq)
  with s show "\<exists>t'. set1 t (i * d) 1 = Some t' \<and> mesh_ind_inv n d (i + 1) t'" by simp
qed

lemma createMeshIndicesImpl_char:
  assumes d: "1 \<le> m_degree E" and k: "0 \<le> m_numMeshIntervals E"
    and n: "m_numGridPoints E = m_numMeshIntervals E * m_degree E + 1"
  shows "\<exists>m. createMeshIndicesImpl E = Some m \<and> size1 m = 1 \<and> size2 m = m_numGridPoints E \<and>
     (\<forall>i. elem m 0 i = (if \<exists>k. 0 \<le> k \<and> k \<le> m_numMeshIntervals E \<and> i = k * m_degree E then 1 else 0))"
proof -
  let ?n = "m_numGridPoints E" and ?d = "m_degree E" and ?k = "m_numMeshIntervals E"
  have n0: "0 < ?n" using n d k by (simp add: add_pos_nonneg) 
  from mesh_ind_loop[OF d k n] obtain m :: "'a matrix" where
    m: "for_loop 0 ?k (\<lambda>imesh indices. set1 indices (imesh * ?d) 1)
             \<lparr>size1 = 1, size2 = ?n, elem = (\<lambda>r c. 0)\<rparr> = Some m" and inv: "mesh_ind_inv ?n ?d ?k m"
    by blast
  have s: "set1 m (?n - 1) 1 = Some (m\<lparr>elem := (\<lambda>r c. if r = 0 \<and> c = ?n - 1 then 1 else elem m r c)\<rparr>)"
    using inv n0 by (intro set1_row) (auto simp: mesh_ind_inv_def)
  have c: "createMeshIndicesImpl E = Some (m\<lparr>elem := (\<lambda>r c. if r = 0 \<and> c = ?n - 1 then 1 else elem m r c)\<rparr>)"
    using n0 m s by (simp add: createMeshIndicesImpl_def zeros_def)
  have "\<forall>i. elem (m\<lparr>elem := (\<lambda>r c. if r = 0 \<and> c = ?n - 1 then 1 else elem m r c)\<rparr>) 0 i =
      (if \<exists>k. 0 \<le> k \<and> k \<le> ?k \<and> i = k * ?d then 1 else 0)"
    using inv n k unfolding mesh_ind_inv_def
    apply simp
    apply (intro allI conjI impI)
    apply blast
    apply auto
    by (metis less_le)
  then show ?thesis using c inv by (simp add: mesh_ind_inv_def)
qed

text \<open>
  Claim C3. For a degree \<open>d \<ge> 1\<close> and \<open>numGridPoints = numMeshIntervals \<cdot> d + 1\<close>,
  \<^verbatim>\<open>createMeshIndicesImpl\<close> returns a row vector of length \<open>numGridPoints\<close> whose
  entries are 1 exactly at the indices \<open>0, d, 2d, \<dots>, numMeshIntervals \<cdot> d\<close> and 0
  elsewhere; it has exactly \<open>numMeshIntervals + 1\<close> ones, and every entry is 0 or 1.
  The witness is the scenario of the specification: mesh \<open>[0, 0.5, 1]\<close>, degree 3,
  seven grid points, ones at the indices 0, 3 and 6.
\<close>

theorem createMeshIndicesImpl_indicator:
  fixes E :: "('a::comm_ring_1) transcription"
  assumes "1 \<le> m_degree E" and "0 \<le> m_numMeshIntervals E"
    and "m_numGridPoints E = m_numMeshIntervals E * m_degree E + 1"
  shows "\<exists>m. createMeshIndicesImpl E = Some m \<and> size1 m = 1 \<and> size2 m = m_numGridPoints E \<and>
     (\<forall>i. 0 \<le> i \<and> i < m_numGridPoints E \<longrightarrow>
        elem m 0 i = (if i \<in> boundary_indices (m_numMeshIntervals E) (m_degree E) then 1 else 0)) \<and>
     {i. 0 \<le> i \<and> i < m_numGridPoints E \<and> elem m 0 i = 1} =
        boundary_indices (m_numMeshIntervals E) (m_degree E) \<and>
     card {i. 0 \<le> i \<and> i < m_numGridPoints E \<and> elem m 0 i = 1} = nat (m_numMeshIntervals E + 1) \<and>
     (\<forall>i. elem m 0 i = 0 \<or> elem m 0 i = 1)"
proof -
  let ?n = "m_numGridPoints E" and ?d = "m_degree E" and ?k = "m_numMeshIntervals E"
  let ?B = "boundary_indices ?k ?d"
  from createMeshIndicesImpl_char[OF assms] obtain m where
    m: "createMeshIndicesImpl E = Some m" "size1 m = 1" "size2 m = ?n"
    and el: "\<And>i. elem m 0 i = (if \<exists>k. 0 \<le> k \<and> k \<le> ?k \<and> i = k * ?d then 1 else 0)"
    by blast
  have B: "i \<in> ?B \<longleftrightarrow> (\<exists>k. 0 \<le> k \<and> k \<le> ?k \<and> i = k * ?d)" for i
    by (auto simp: boundary_indices_def)
  have el': "elem m 0 i = (if i \<in> ?B then 1 else 0)" for i
    using el[of i] B[of i] by simp
  have sub: "i \<in> ?B \<Longrightarrow> 0 \<le> i \<and> i < ?n" for i
  proof -
    assume "i \<in> ?B"
    then obtain k where k: "0 \<le> k" "k \<le> ?k" "i = k * ?d" using B by blast
    have "k * ?d \<le> ?k * ?d" using k assms(1) by (intro mult_right_mono) auto
    moreover have "0 \<le> k * ?d" using k assms(1) by simp
    ultimately show ?thesis using k assms(3) by simp
  qed
  have S: "{i. 0 \<le> i \<and> i < ?n \<and> elem m 0 i = 1} = ?B"
    using sub by (auto simp: el')
  have inj: "inj_on (\<lambda>k. k * ?d) {0..?k}"
    using assms(1) by (auto simp: inj_on_def)
  have "card ?B = nat (?k + 1)"
    unfolding boundary_indices_def using card_image[OF inj] by simp
  moreover have "\<forall>i. elem m 0 i = 0 \<or> elem m 0 i = 1" by (simp add: el')
  ultimately show ?thesis using S m el' by simp
qed

theorem createMeshIndicesImpl_indicator_witness:
  "1 \<le> m_degree example_mesh3 \<and> 0 \<le> m_numMeshIntervals example_mesh3 \<and>
   m_numGridPoints example_mesh3 = m_numMeshIntervals example_mesh3 * m_degree example_mesh3 + 1 \<and>
   m_numMeshIntervals example_mesh3 = int (length (getMesh example_mesh3)) - 1 \<and>
   (\<exists>m. createMeshIndicesImpl example_mesh3 = Some m \<and> size1 m = 1 \<and> size2 m = 7 \<and>
        {i. 0 \<le> i \<and> i < 7 \<and> elem m 0 i = 1} = {0, 3, 6} \<and>
        card {i. 0 \<le> i \<and> i < 7 \<and> elem m 0 i = 1} = 3)"
proof -
  have h: "1 \<le> m_degree example_mesh3" "0 \<le> m_numMeshIntervals example_mesh3"
    "m_numGridPoints example_mesh3 = m_numMeshIntervals example_mesh3 * m_degree example_mesh3 + 1"
    by (simp_all add: example_mesh3_def)
  have "{0..2::int} = {0, 1, 2}" by auto
  then have b: "boundary_indices 2 3 = {0, 3, 6}" by (simp add: boundary_indices_def)
  show ?thesis
    using createMeshIndicesImpl_indicator[OF h] b by (auto simp add: example_mesh3_def)
qed

subsection \<open>The quadrature coefficients\<close>














lemma sum_int_unfold:
  fixes f :: "int \<Rightarrow> 'a::comm_monoid_add"
  shows "sum f {a..<b} = (if a < b then f a + sum f {a + 1..<b} else 0)"
proof (cases "a < b")
  case True
  then have "{a..<b} = insert a {a + 1..<b}" by auto
  then show ?thesis using True by simp
qed simp







subsection \<open>The interpolation constraints\<close>

lemma get_block_col:
  assumes "0 \<le> c" "c < size2 m"
  shows "get_block m All (Index c) = Some \<lparr>size1 = size1 m, size2 = 1, elem = (\<lambda>r c'. elem m r (c + c'))\<rparr>"
  using assms by (simp add: get_block_def scalar_index_inrange)

lemma set_block_col:
  assumes "0 \<le> c" "c < size2 m" "size1 v = size1 m" "size2 v = 1"
  shows "set_block m All (Index c) v = Some (write_block m 0 (size1 m) c 1 (elem v))"
  using assms by (simp add: set_block_def scalar_index_inrange)

lemma interp_inner_step:
  fixes out :: "('a::comm_ring_1) matrix"
  assumes sh: "interp_shapes E v old"
    and inv: "interp_inv E v old (imesh * (m_degree E - 1) + d) out"
    and i: "0 \<le> imesh" "imesh < m_numMeshIntervals E" and d: "0 \<le> d" "d < m_degree E - 1"
  shows "\<exists>out'. do {
             x_t \<leftarrow> get_block v All (Index (imesh * m_degree E + d + 1));
             root \<leftarrow> vector_at (m_legendreRoots E) d;
             diff \<leftarrow> binary (-) \<lparr>size1 = size1 v, size2 = 1, elem = (\<lambda>r c'. elem v r (imesh * m_degree E + m_degree E + c'))\<rparr>
                              \<lparr>size1 = size1 v, size2 = 1, elem = (\<lambda>r c'. elem v r (imesh * m_degree E + c'))\<rparr>;
             line \<leftarrow> binary (+) (smult root diff) \<lparr>size1 = size1 v, size2 = 1, elem = (\<lambda>r c'. elem v r (imesh * m_degree E + c'))\<rparr>;
             residual \<leftarrow> binary (-) x_t line;
             set_block out All (Index (imesh * (m_degree E - 1) + d)) residual
           } = Some out' \<and> interp_inv E v old (imesh * (m_degree E - 1) + (d + 1)) out'"
proof -
  let ?deg = "m_degree E" and ?nmi = "m_numMeshIntervals E"
  let ?g = "imesh * ?deg" and ?c0 = "imesh * (?deg - 1) + d"
  have deg: "1 \<le> ?deg" and n: "size2 v = ?nmi * ?deg + 1" and roots: "?deg - 1 \<le> int (length (m_legendreRoots E))"
    and so: "size1 out = size1 v" "?nmi * (?deg - 1) \<le> size2 out" "size1 old = size1 v"
    using sh inv by (simp_all add: interp_shapes_def interp_inv_def)
  have g0: "0 \<le> ?g" using i deg by simp
  have "?g \<le> (?nmi - 1) * ?deg" using i deg by (intro mult_right_mono) auto
  then have g1: "?g + ?deg < size2 v" using n by (simp add: algebra_simps)
  have c00: "0 \<le> imesh * (?deg - 1)" using i deg by simp
  have "imesh * (?deg - 1) \<le> (?nmi - 1) * (?deg - 1)" using i deg by (intro mult_right_mono) auto
  then have c1: "?c0 < size2 out" using so d by (simp add: algebra_simps)
  have xt: "get_block v All (Index (?g + d + 1)) =
      Some \<lparr>size1 = size1 v, size2 = 1, elem = (\<lambda>r c'. elem v r (?g + d + 1 + c'))\<rparr>"
    using g0 g1 d by (intro get_block_col) auto
  have rt: "vector_at (m_legendreRoots E) d = Some (m_legendreRoots E ! nat d)"
    using d roots by (simp add: vector_at_def)
  let ?res = "\<lparr>size1 = size1 v, size2 = 1,
     elem = (\<lambda>r c. elem v r (?g + d + 1 + c) -
        (m_legendreRoots E ! nat d * (elem v r (?g + ?deg + c) - elem v r (?g + c)) + elem v r (?g + c)))\<rparr>"
  have sb: "set_block out All (Index ?c0) ?res = Some (write_block out 0 (size1 out) ?c0 1 (elem ?res))"
    using c00 c1 d so by (intro set_block_col) auto
  have eq: "do {
             x_t \<leftarrow> get_block v All (Index (?g + d + 1));
             root \<leftarrow> vector_at (m_legendreRoots E) d;
             diff \<leftarrow> binary (-) \<lparr>size1 = size1 v, size2 = 1, elem = (\<lambda>r c'. elem v r (?g + ?deg + c'))\<rparr>
                              \<lparr>size1 = size1 v, size2 = 1, elem = (\<lambda>r c'. elem v r (?g + c'))\<rparr>;
             line \<leftarrow> binary (+) (smult root diff) \<lparr>size1 = size1 v, size2 = 1, elem = (\<lambda>r c'. elem v r (?g + c'))\<rparr>;
             residual \<leftarrow> binary (-) x_t line;
             set_block out All (Index ?c0) residual
           } = Some (write_block out 0 (size1 out) ?c0 1 (elem ?res))"
    unfolding xt rt using sb by (simp add: binary_def smult_def)
  have dm: "?c0 div (?deg - 1) = imesh" "?c0 mod (?deg - 1) = d"
    using d by (simp_all add: add.commute[of "imesh * (?deg - 1)"])
  have el: "elem out r c = (if 0 \<le> r \<and> r < size1 old \<and> 0 \<le> c \<and> c < ?c0
         then interpolation_residual E v (c div (?deg - 1)) (c mod (?deg - 1)) r
         else elem old r c)" for r c
    using inv by (simp add: interp_inv_def)
  have new: "elem (write_block out 0 (size1 out) ?c0 1 (elem ?res)) r c =
        (if 0 \<le> r \<and> r < size1 old \<and> 0 \<le> c \<and> c < ?c0 + 1
         then interpolation_residual E v (c div (?deg - 1)) (c mod (?deg - 1)) r
         else elem old r c)" for r c
  proof (cases "c = ?c0 \<and> 0 \<le> r \<and> r < size1 v")
    case True
    then have "elem (write_block out 0 (size1 out) ?c0 1 (elem ?res)) r c = elem ?res r 0"
      using so by (simp add: write_block_def)
    also have "\<dots> = interpolation_residual E v imesh d r"
      by (simp add: interpolation_residual_def algebra_simps)
    finally show ?thesis using True dm so c00 d by simp
  next
    case False
    then have "elem (write_block out 0 (size1 out) ?c0 1 (elem ?res)) r c = elem out r c"
      using so by (auto simp: write_block_def)
    then show ?thesis using False el[of r c] so by auto
  qed
  have inv': "interp_inv E v old (?c0 + 1) (write_block out 0 (size1 out) ?c0 1 (elem ?res))"
    unfolding interp_inv_def using new inv by (simp add: interp_inv_def write_block_def)
  have p: "imesh * (?deg - 1) + (d + 1) = ?c0 + 1" by simp
  show ?thesis unfolding eq p using inv' by blast
qed

lemma interp_outer_step:
  fixes out :: "('a::comm_ring_1) matrix"
  assumes sh: "interp_shapes E v old"
    and inv: "interp_inv E v old (imesh * (m_degree E - 1)) out"
    and i: "0 \<le> imesh" "imesh < m_numMeshIntervals E"
  shows "\<exists>out'. (let igrid = imesh * m_degree E in
          do {
            x_i \<leftarrow> get_block v All (Index igrid);
            x_ip1 \<leftarrow> get_block v All (Index (igrid + m_degree E));
            for_loop 0 (m_degree E - 1)
              (\<lambda>d interpVariables.
                 do {
                   x_t \<leftarrow> get_block v All (Index (igrid + d + 1));
                   root \<leftarrow> vector_at (m_legendreRoots E) d;
                   diff \<leftarrow> binary (-) x_ip1 x_i;
                   line \<leftarrow> binary (+) (smult root diff) x_i;
                   residual \<leftarrow> binary (-) x_t line;
                   set_block interpVariables All (Index (imesh * (m_degree E - 1) + d)) residual
                 })
              out
          }) = Some out' \<and> interp_inv E v old ((imesh + 1) * (m_degree E - 1)) out'"
proof -
  let ?deg = "m_degree E" and ?nmi = "m_numMeshIntervals E"
  let ?g = "imesh * ?deg"
  have deg: "1 \<le> ?deg" and n: "size2 v = ?nmi * ?deg + 1"
    using sh by (simp_all add: interp_shapes_def)
  have g0: "0 \<le> ?g" using i deg by simp
  have "?g \<le> (?nmi - 1) * ?deg" using i deg by (intro mult_right_mono) auto
  then have g1: "?g + ?deg < size2 v" using n by (simp add: algebra_simps)
  have xi: "get_block v All (Index ?g) =
      Some \<lparr>size1 = size1 v, size2 = 1, elem = (\<lambda>r c'. elem v r (?g + c'))\<rparr>"
    using g0 g1 deg by (intro get_block_col) auto
  have xip1: "get_block v All (Index (?g + ?deg)) =
      Some \<lparr>size1 = size1 v, size2 = 1, elem = (\<lambda>r c'. elem v r (?g + ?deg + c'))\<rparr>"
    using g0 g1 deg by (intro get_block_col) auto
  have "\<exists>out'. for_loop 0 (?deg - 1)
              (\<lambda>d interpVariables.
                 do {
                   x_t \<leftarrow> get_block v All (Index (?g + d + 1));
                   root \<leftarrow> vector_at (m_legendreRoots E) d;
                   diff \<leftarrow> binary (-) \<lparr>size1 = size1 v, size2 = 1, elem = (\<lambda>r c'. elem v r (?g + ?deg + c'))\<rparr>
                              \<lparr>size1 = size1 v, size2 = 1, elem = (\<lambda>r c'. elem v r (?g + c'))\<rparr>;
                   line \<leftarrow> binary (+) (smult root diff) \<lparr>size1 = size1 v, size2 = 1, elem = (\<lambda>r c'. elem v r (?g + c'))\<rparr>;
                   residual \<leftarrow> binary (-) x_t line;
                   set_block interpVariables All (Index (imesh * (?deg - 1) + d)) residual
                 })
              out = Some out' \<and> interp_inv E v old (imesh * (?deg - 1) + (?deg - 1)) out'"
  proof (rule for_loop_rule[where I = "\<lambda>d. interp_inv E v old (imesh * (?deg - 1) + d)"])
    show "interp_inv E v old (imesh * (?deg - 1) + 0) out" using inv by simp
    show "0 \<le> ?deg - 1" using deg by simp
  next
    fix d and t :: "'a matrix"
    assume "0 \<le> d" "d < ?deg - 1" "interp_inv E v old (imesh * (?deg - 1) + d) t"
    then show "\<exists>t'. do {
                   x_t \<leftarrow> get_block v All (Index (?g + d + 1));
                   root \<leftarrow> vector_at (m_legendreRoots E) d;
                   diff \<leftarrow> binary (-) \<lparr>size1 = size1 v, size2 = 1, elem = (\<lambda>r c'. elem v r (?g + ?deg + c'))\<rparr>
                              \<lparr>size1 = size1 v, size2 = 1, elem = (\<lambda>r c'. elem v r (?g + c'))\<rparr>;
                   line \<leftarrow> binary (+) (smult root diff) \<lparr>size1 = size1 v, size2 = 1, elem = (\<lambda>r c'. elem v r (?g + c'))\<rparr>;
                   residual \<leftarrow> binary (-) x_t line;
                   set_block t All (Index (imesh * (?deg - 1) + d)) residual
                 } = Some t' \<and> interp_inv E v old (imesh * (?deg - 1) + (d + 1)) t'"
      using interp_inner_step[OF sh _ i] by blast
  qed
  moreover have "imesh * (?deg - 1) + (?deg - 1) = (imesh + 1) * (?deg - 1)"
    by (simp add: algebra_simps)
  ultimately show ?thesis unfolding Let_def xi xip1 by simp
qed

lemma calcInterpolatingVariables_char:
  fixes old :: "('a::comm_ring_1) matrix"
  assumes sh: "interp_shapes E v old"
  shows "\<exists>out. calcInterpolatingVariables E v old = Some out \<and>
     interp_inv E v old (m_numMeshIntervals E * (m_degree E - 1)) out"
  unfolding calcInterpolatingVariables_def
proof (rule for_loop_rule[where I = "\<lambda>imesh. interp_inv E v old (imesh * (m_degree E - 1))"])
  show "interp_inv E v old (0 * (m_degree E - 1)) old" by (auto simp: interp_inv_def)
  show "0 \<le> m_numMeshIntervals E" using sh by (simp add: interp_shapes_def)
next
  fix i and t :: "'a matrix"
  assume "0 \<le> i" "i < m_numMeshIntervals E" "interp_inv E v old (i * (m_degree E - 1)) t"
  then show "\<exists>t'. (let igrid = i * m_degree E in
          do {
            x_i \<leftarrow> get_block v All (Index igrid);
            x_ip1 \<leftarrow> get_block v All (Index (igrid + m_degree E));
            for_loop 0 (m_degree E - 1)
              (\<lambda>d interpVariables.
                 do {
                   x_t \<leftarrow> get_block v All (Index (igrid + d + 1));
                   root \<leftarrow> vector_at (m_legendreRoots E) d;
                   diff \<leftarrow> binary (-) x_ip1 x_i;
                   line \<leftarrow> binary (+) (smult root diff) x_i;
                   residual \<leftarrow> binary (-) x_t line;
                   set_block interpVariables All (Index (i * (m_degree E - 1) + d)) residual
                 })
              t
          }) = Some t' \<and> interp_inv E v old ((i + 1) * (m_degree E - 1)) t'"
    using interp_outer_step[OF sh] by blast
qed

text \<open>
  Claim C4. When the interpolation is active, for every mesh interval \<open>imesh\<close> and
  every interior index \<open>k\<close> in \<open>[0, d - 2]\<close> the residual written at column
  \<open>imesh \<cdot> (d - 1) + k\<close> is \<open>actual - (x\<^sub>i + legendreRoot[k] \<cdot> (x\<^sub>i\<^sub>+\<^sub>1 - x\<^sub>i))\<close>, where \<open>x\<^sub>i\<close> is
  the column of the variables at grid index \<open>imesh \<cdot> d\<close>, \<open>x\<^sub>i\<^sub>+\<^sub>1\<close> the column at
  \<open>imesh \<cdot> d + d\<close> and \<open>actual\<close> the column at \<open>imesh \<cdot> d + k + 1\<close>; with boundary
  values 0 and 1 the residual is \<open>actual - legendreRoot[k]\<close>. Stated for every row
  \<open>r\<close> of the columns.
\<close>

theorem calcInterpolatingVariables_residual:
  fixes E :: "('a::comm_ring_1) transcription"
  assumes "interp_shapes E variables interpVariables"
  shows "\<exists>out. calcInterpolatingVariables E variables interpVariables = Some out \<and>
     (getNumControls E \<noteq> 0 \<and> getInterpolateControlMidpoints E \<longrightarrow>
        calcInterpolatingControlsImpl E variables interpVariables = Some out) \<and>
     (getNumMultipliers E \<noteq> 0 \<and> getInterpolateMultiplierMidpoints E \<longrightarrow>
        calcInterpolatingMultipliersImpl E variables interpVariables = Some out) \<and>
     (\<forall>imesh k r. 0 \<le> imesh \<and> imesh < m_numMeshIntervals E \<and> 0 \<le> k \<and> k \<le> m_degree E - 2 \<and>
          0 \<le> r \<and> r < size1 variables \<longrightarrow>
        elem out r (imesh * (m_degree E - 1) + k) =
          elem variables r (imesh * m_degree E + k + 1) -
            (elem variables r (imesh * m_degree E) +
             m_legendreRoots E ! nat k *
               (elem variables r (imesh * m_degree E + m_degree E) - elem variables r (imesh * m_degree E))) \<and>
        (elem variables r (imesh * m_degree E) = 0 \<and> elem variables r (imesh * m_degree E + m_degree E) = 1 \<longrightarrow>
           elem out r (imesh * (m_degree E - 1) + k) =
             elem variables r (imesh * m_degree E + k + 1) - m_legendreRoots E ! nat k))"
proof -
  let ?deg = "m_degree E" and ?nmi = "m_numMeshIntervals E"
  from calcInterpolatingVariables_char[OF assms] obtain out where
    out: "calcInterpolatingVariables E variables interpVariables = Some out"
    and inv: "interp_inv E variables interpVariables (?nmi * (?deg - 1)) out" by blast
  have sz: "size1 interpVariables = size1 variables" using assms by (simp add: interp_shapes_def)
  have main: "elem out r (imesh * (?deg - 1) + k) = interpolation_residual E variables imesh k r"
    if "0 \<le> imesh" "imesh < ?nmi" "0 \<le> k" "k \<le> ?deg - 2" "0 \<le> r" "r < size1 variables" for imesh k r
  proof -
    let ?c = "imesh * (?deg - 1) + k"
    have d1: "0 < ?deg - 1" using that by linarith
    have c0: "0 \<le> imesh * (?deg - 1)" using that d1 by simp
    have "imesh * (?deg - 1) \<le> (?nmi - 1) * (?deg - 1)" using that d1 by (intro mult_right_mono) auto
    then have c1: "?c < ?nmi * (?deg - 1)" using that by (simp add: algebra_simps)
    have dm: "?c div (?deg - 1) = imesh" "?c mod (?deg - 1) = k"
      using that by (simp_all add: add.commute[of "imesh * (?deg - 1)"])
    have "elem out r ?c = interpolation_residual E variables (?c div (?deg - 1)) (?c mod (?deg - 1)) r"
      using inv that c0 c1 sz unfolding interp_inv_def by simp
    then show ?thesis unfolding dm .
  qed
  show ?thesis
    using out main
    by (auto simp: calcInterpolatingControlsImpl_def calcInterpolatingMultipliersImpl_def
        interpolation_residual_def)
qed

theorem calcInterpolatingVariables_residual_witness:
  "interp_shapes example_mesh4 example_controls4 example_interp4 \<and>
   getNumControls example_mesh4 \<noteq> 0 \<and> getInterpolateControlMidpoints example_mesh4 \<and>
   elem example_controls4 0 0 = 0 \<and> elem example_controls4 0 4 = 1 \<and>
   (\<exists>out. calcInterpolatingControlsImpl example_mesh4 example_controls4 example_interp4 = Some out \<and>
      elem out 0 0 = 1/10 - 88588/1000000 \<and>
      elem out 0 1 = 2/5 - 409467/1000000 \<and>
      elem out 0 2 = 4/5 - 787659/1000000)"
proof -
  have h: "interp_shapes example_mesh4 example_controls4 example_interp4"
    by (simp add: interp_shapes_def example_mesh4_def example_controls4_def example_interp4_def row_vector_def)
  have a: "getNumControls example_mesh4 \<noteq> 0 \<and> getInterpolateControlMidpoints example_mesh4"
    by (simp add: example_mesh4_def)
  from calcInterpolatingVariables_residual[OF h] a obtain out where
    out: "calcInterpolatingControlsImpl example_mesh4 example_controls4 example_interp4 = Some out"
    and r: "\<And>imesh k r. 0 \<le> imesh \<and> imesh < m_numMeshIntervals example_mesh4 \<and> 0 \<le> k \<and> k \<le> m_degree example_mesh4 - 2 \<and>
          0 \<le> r \<and> r < size1 example_controls4 \<Longrightarrow>
        elem example_controls4 r (imesh * m_degree example_mesh4) = 0 \<and>
        elem example_controls4 r (imesh * m_degree example_mesh4 + m_degree example_mesh4) = 1 \<Longrightarrow>
           elem out r (imesh * (m_degree example_mesh4 - 1) + k) =
             elem example_controls4 r (imesh * m_degree example_mesh4 + k + 1) - m_legendreRoots example_mesh4 ! nat k"
    by blast
  have "elem out 0 0 = 1/10 - 88588/1000000" "elem out 0 1 = 2/5 - 409467/1000000"
    "elem out 0 2 = 4/5 - 787659/1000000"
    using r[of 0 0 0] r[of 0 1 0] r[of 0 2 0]
    by (simp_all add: example_mesh4_def example_controls4_def row_vector_def)
  moreover have "elem example_controls4 0 0 = 0 \<and> elem example_controls4 0 4 = 1"
    by (simp add: example_controls4_def row_vector_def)
  ultimately show ?thesis using h a out by blast
qed

lemma calcInterpolatingVariables_values:
  fixes E :: "('a::comm_ring_1) transcription"
  assumes "interp_shapes E variables interpVariables"
  shows "\<exists>out. calcInterpolatingVariables E variables interpVariables = Some out \<and>
     (\<forall>imesh k r. 0 \<le> imesh \<and> imesh < m_numMeshIntervals E \<and> 0 \<le> k \<and> k \<le> m_degree E - 2 \<and>
          0 \<le> r \<and> r < size1 variables \<longrightarrow>
        elem out r (imesh * (m_degree E - 1) + k) = interpolation_residual E variables imesh k r)"
proof -
  let ?deg = "m_degree E" and ?nmi = "m_numMeshIntervals E"
  from calcInterpolatingVariables_char[OF assms] obtain out where
    out: "calcInterpolatingVariables E variables interpVariables = Some out"
    and inv: "interp_inv E variables interpVariables (?nmi * (?deg - 1)) out" by blast
  have sz: "size1 interpVariables = size1 variables" using assms by (simp add: interp_shapes_def)
  have "elem out r (imesh * (?deg - 1) + k) = interpolation_residual E variables imesh k r"
    if "0 \<le> imesh" "imesh < ?nmi" "0 \<le> k" "k \<le> ?deg - 2" "0 \<le> r" "r < size1 variables" for imesh k r
  proof -
    let ?c = "imesh * (?deg - 1) + k"
    have d1: "0 < ?deg - 1" using that by linarith
    have c0: "0 \<le> imesh * (?deg - 1)" using that d1 by simp
    have "imesh * (?deg - 1) \<le> (?nmi - 1) * (?deg - 1)" using that d1 by (intro mult_right_mono) auto
    then have c1: "?c < ?nmi * (?deg - 1)" using that by (simp add: algebra_simps)
    have dm: "?c div (?deg - 1) = imesh" "?c mod (?deg - 1) = k"
      using that by (simp_all add: add.commute[of "imesh * (?deg - 1)"])
    have "elem out r ?c = interpolation_residual E variables (?c div (?deg - 1)) (?c mod (?deg - 1)) r"
      using inv that c0 c1 sz unfolding interp_inv_def by simp
    then show ?thesis unfolding dm .
  qed
  with out show ?thesis by blast
qed

text \<open>
  Claim C5. For controls and multipliers separately: when the class's flag is false or
  its variable count is zero, the \<^verbatim>\<open>calcInterpolating...Impl\<close> operation returns with
  its output argument unchanged, whatever the arguments and the other class's flag and
  count are; when the flag is true and the count is nonzero, it computes the
  interpolation residuals: on arguments of the transcription's shapes it returns, and
  column \<open>imesh \<cdot> (d - 1) + k\<close> of the result holds
  \<open>actual - (x\<^sub>i + legendreRoot[k] \<cdot> (x\<^sub>i\<^sub>+\<^sub>1 - x\<^sub>i))\<close> in every row. The other class's count and
  flag have no influence on the operation. In the witness the controls are switched on
  and receive their residuals, and the multipliers are switched off: their operation
  returns its output unchanged even for arguments on which the interpolation itself
  fails.
\<close>

theorem interpolation_gating:
  fixes E :: "('a::comm_ring_1) transcription"
  shows "(\<not> getInterpolateControlMidpoints E \<or> getNumControls E = 0 \<longrightarrow>
            calcInterpolatingControlsImpl E controls interpControls = Some interpControls) \<and>
         (getInterpolateControlMidpoints E \<and> getNumControls E \<noteq> 0 \<and>
            interp_shapes E controls interpControls \<longrightarrow>
            (\<exists>out. calcInterpolatingControlsImpl E controls interpControls = Some out \<and>
               (\<forall>imesh k r. 0 \<le> imesh \<and> imesh < m_numMeshIntervals E \<and> 0 \<le> k \<and> k \<le> m_degree E - 2 \<and>
                    0 \<le> r \<and> r < size1 controls \<longrightarrow>
                  elem out r (imesh * (m_degree E - 1) + k) =
                    elem controls r (imesh * m_degree E + k + 1) -
                      (elem controls r (imesh * m_degree E) +
                       m_legendreRoots E ! nat k *
                         (elem controls r (imesh * m_degree E + m_degree E) -
                          elem controls r (imesh * m_degree E)))))) \<and>
         (\<not> getInterpolateMultiplierMidpoints E \<or> getNumMultipliers E = 0 \<longrightarrow>
            calcInterpolatingMultipliersImpl E multipliers interpMultipliers = Some interpMultipliers) \<and>
         (getInterpolateMultiplierMidpoints E \<and> getNumMultipliers E \<noteq> 0 \<and>
            interp_shapes E multipliers interpMultipliers \<longrightarrow>
            (\<exists>out. calcInterpolatingMultipliersImpl E multipliers interpMultipliers = Some out \<and>
               (\<forall>imesh k r. 0 \<le> imesh \<and> imesh < m_numMeshIntervals E \<and> 0 \<le> k \<and> k \<le> m_degree E - 2 \<and>
                    0 \<le> r \<and> r < size1 multipliers \<longrightarrow>
                  elem out r (imesh * (m_degree E - 1) + k) =
                    elem multipliers r (imesh * m_degree E + k + 1) -
                      (elem multipliers r (imesh * m_degree E) +
                       m_legendreRoots E ! nat k *
                         (elem multipliers r (imesh * m_degree E + m_degree E) -
                          elem multipliers r (imesh * m_degree E)))))) \<and>
         calcInterpolatingControlsImpl
             (E\<lparr>getNumMultipliers := n, getInterpolateMultiplierMidpoints := b\<rparr>) controls interpControls =
           calcInterpolatingControlsImpl E controls interpControls \<and>
         calcInterpolatingMultipliersImpl
             (E\<lparr>getNumControls := n, getInterpolateControlMidpoints := b\<rparr>) multipliers interpMultipliers =
           calcInterpolatingMultipliersImpl E multipliers interpMultipliers"
proof -
  have 1: "\<not> getInterpolateControlMidpoints E \<or> getNumControls E = 0 \<longrightarrow>
            calcInterpolatingControlsImpl E controls interpControls = Some interpControls"
    by (auto simp: calcInterpolatingControlsImpl_def)
  have 3: "\<not> getInterpolateMultiplierMidpoints E \<or> getNumMultipliers E = 0 \<longrightarrow>
            calcInterpolatingMultipliersImpl E multipliers interpMultipliers = Some interpMultipliers"
    by (auto simp: calcInterpolatingMultipliersImpl_def)
  have 2: "getInterpolateControlMidpoints E \<and> getNumControls E \<noteq> 0 \<and>
            interp_shapes E controls interpControls \<longrightarrow>
            (\<exists>out. calcInterpolatingControlsImpl E controls interpControls = Some out \<and>
               (\<forall>imesh k r. 0 \<le> imesh \<and> imesh < m_numMeshIntervals E \<and> 0 \<le> k \<and> k \<le> m_degree E - 2 \<and>
                    0 \<le> r \<and> r < size1 controls \<longrightarrow>
                  elem out r (imesh * (m_degree E - 1) + k) =
                    elem controls r (imesh * m_degree E + k + 1) -
                      (elem controls r (imesh * m_degree E) +
                       m_legendreRoots E ! nat k *
                         (elem controls r (imesh * m_degree E + m_degree E) -
                          elem controls r (imesh * m_degree E)))))"
  proof (intro impI)
    assume a: "getInterpolateControlMidpoints E \<and> getNumControls E \<noteq> 0 \<and>
            interp_shapes E controls interpControls"
    then have e: "calcInterpolatingControlsImpl E controls interpControls =
        calcInterpolatingVariables E controls interpControls"
      by (simp add: calcInterpolatingControlsImpl_def)
    from a calcInterpolatingVariables_values[of E controls interpControls]
    show "\<exists>out. calcInterpolatingControlsImpl E controls interpControls = Some out \<and>
               (\<forall>imesh k r. 0 \<le> imesh \<and> imesh < m_numMeshIntervals E \<and> 0 \<le> k \<and> k \<le> m_degree E - 2 \<and>
                    0 \<le> r \<and> r < size1 controls \<longrightarrow>
                  elem out r (imesh * (m_degree E - 1) + k) =
                    elem controls r (imesh * m_degree E + k + 1) -
                      (elem controls r (imesh * m_degree E) +
                       m_legendreRoots E ! nat k *
                         (elem controls r (imesh * m_degree E + m_degree E) -
                          elem controls r (imesh * m_degree E))))"
      unfolding e interpolation_residual_def by blast
  qed
  have 4: "getInterpolateMultiplierMidpoints E \<and> getNumMultipliers E \<noteq> 0 \<and>
            interp_shapes E multipliers interpMultipliers \<longrightarrow>
            (\<exists>out. calcInterpolatingMultipliersImpl E multipliers interpMultipliers = Some out \<and>
               (\<forall>imesh k r. 0 \<le> imesh \<and> imesh < m_numMeshIntervals E \<and> 0 \<le> k \<and> k \<le> m_degree E - 2 \<and>
                    0 \<le> r \<and> r < size1 multipliers \<longrightarrow>
                  elem out r (imesh * (m_degree E - 1) + k) =
                    elem multipliers r (imesh * m_degree E + k + 1) -
                      (elem multipliers r (imesh * m_degree E) +
                       m_legendreRoots E ! nat k *
                         (elem multipliers r (imesh * m_degree E + m_degree E) -
                          elem multipliers r (imesh * m_degree E)))))"
  proof (intro impI)
    assume a: "getInterpolateMultiplierMidpoints E \<and> getNumMultipliers E \<noteq> 0 \<and>
            interp_shapes E multipliers interpMultipliers"
    then have e: "calcInterpolatingMultipliersImpl E multipliers interpMultipliers =
        calcInterpolatingVariables E multipliers interpMultipliers"
      by (simp add: calcInterpolatingMultipliersImpl_def)
    from a calcInterpolatingVariables_values[of E multipliers interpMultipliers]
    show "\<exists>out. calcInterpolatingMultipliersImpl E multipliers interpMultipliers = Some out \<and>
               (\<forall>imesh k r. 0 \<le> imesh \<and> imesh < m_numMeshIntervals E \<and> 0 \<le> k \<and> k \<le> m_degree E - 2 \<and>
                    0 \<le> r \<and> r < size1 multipliers \<longrightarrow>
                  elem out r (imesh * (m_degree E - 1) + k) =
                    elem multipliers r (imesh * m_degree E + k + 1) -
                      (elem multipliers r (imesh * m_degree E) +
                       m_legendreRoots E ! nat k *
                         (elem multipliers r (imesh * m_degree E + m_degree E) -
                          elem multipliers r (imesh * m_degree E))))"
      unfolding e interpolation_residual_def by blast
  qed
  have 5: "calcInterpolatingControlsImpl
             (E\<lparr>getNumMultipliers := n, getInterpolateMultiplierMidpoints := b\<rparr>) controls interpControls =
           calcInterpolatingControlsImpl E controls interpControls"
    by (simp add: calcInterpolatingControlsImpl_def calcInterpolatingVariables_def)
  have 6: "calcInterpolatingMultipliersImpl
             (E\<lparr>getNumControls := n, getInterpolateControlMidpoints := b\<rparr>) multipliers interpMultipliers =
           calcInterpolatingMultipliersImpl E multipliers interpMultipliers"
    by (simp add: calcInterpolatingMultipliersImpl_def calcInterpolatingVariables_def)
  show ?thesis using 1 2 3 4 5 6 by blast
qed

theorem interpolation_gating_witness:
  "\<not> getInterpolateMultiplierMidpoints example_mesh4 \<and> getNumMultipliers example_mesh4 \<noteq> 0 \<and>
   getInterpolateControlMidpoints example_mesh4 \<and> getNumControls example_mesh4 \<noteq> 0 \<and>
   interp_shapes example_mesh4 example_controls4 example_interp4 \<and>
   calcInterpolatingMultipliersImpl example_mesh4 example_controls4 example_interp4 = Some example_interp4 \<and>
   (\<exists>out. calcInterpolatingControlsImpl example_mesh4 example_controls4 example_interp4 = Some out \<and>
      elem out 0 0 = 2853/250000 \<and> elem out 0 1 = - (9467/1000000) \<and> elem out 0 2 = 12341/1000000 \<and>
      elem example_interp4 0 0 = 7 \<and> elem example_interp4 0 1 = 7 \<and> elem example_interp4 0 2 = 7) \<and>
   calcInterpolatingControlsImpl (example_mesh4\<lparr>getInterpolateControlMidpoints := False\<rparr>)
     example_controls4 example_interp4 = Some example_interp4 \<and>
   calcInterpolatingControlsImpl (example_mesh4\<lparr>getNumControls := 0\<rparr>)
     example_controls4 example_interp4 = Some example_interp4 \<and>
   calcInterpolatingVariables example_mesh4 example_interp4 example_interp4 = None \<and>
   calcInterpolatingMultipliersImpl example_mesh4 example_interp4 example_interp4 = Some example_interp4"
proof -
  have f: "\<not> getInterpolateMultiplierMidpoints example_mesh4" "getNumMultipliers example_mesh4 \<noteq> 0"
    "getInterpolateControlMidpoints example_mesh4" "getNumControls example_mesh4 \<noteq> 0"
    by (simp_all add: example_mesh4_def)
  have g: "getInterpolateControlMidpoints (example_mesh4\<lparr>getNumControls := 0\<rparr>)"
    "getNumControls (example_mesh4\<lparr>getNumControls := 0\<rparr>) = 0"
    "\<not> getInterpolateControlMidpoints (example_mesh4\<lparr>getInterpolateControlMidpoints := False\<rparr>)"
    by (simp_all add: example_mesh4_def)
  have h: "interp_shapes example_mesh4 example_controls4 example_interp4"
    by (simp add: interp_shapes_def example_mesh4_def example_controls4_def example_interp4_def row_vector_def)
  have n: "calcInterpolatingVariables example_mesh4 example_interp4 example_interp4 = None"
    by (simp add: calcInterpolatingVariables_def example_mesh4_def example_interp4_def row_vector_def
        for_loop.simps get_block_def scalar_index_def)
  note a = interpolation_gating[where E = example_mesh4 and controls = example_controls4
      and interpControls = example_interp4 and multipliers = example_controls4
      and interpMultipliers = example_interp4 and n = 0 and b = False]
  note b = interpolation_gating[where E = example_mesh4 and controls = example_controls4
      and interpControls = example_interp4 and multipliers = example_interp4
      and interpMultipliers = example_interp4 and n = 0 and b = False]
  note c = interpolation_gating[where E = "example_mesh4\<lparr>getInterpolateControlMidpoints := False\<rparr>"
      and controls = example_controls4 and interpControls = example_interp4
      and multipliers = example_controls4 and interpMultipliers = example_interp4 and n = 0 and b = False]
  note d = interpolation_gating[where E = "example_mesh4\<lparr>getNumControls := 0\<rparr>"
      and controls = example_controls4 and interpControls = example_interp4
      and multipliers = example_controls4 and interpMultipliers = example_interp4 and n = 0 and b = False]
  have 1: "calcInterpolatingMultipliersImpl example_mesh4 example_controls4 example_interp4 = Some example_interp4"
    using a f by blast
  from a f h obtain out where
    out: "calcInterpolatingControlsImpl example_mesh4 example_controls4 example_interp4 = Some out"
    and r: "\<And>imesh k r. 0 \<le> imesh \<and> imesh < m_numMeshIntervals example_mesh4 \<and> 0 \<le> k \<and>
                k \<le> m_degree example_mesh4 - 2 \<and> 0 \<le> r \<and> r < size1 example_controls4 \<Longrightarrow>
                  elem out r (imesh * (m_degree example_mesh4 - 1) + k) =
                    elem example_controls4 r (imesh * m_degree example_mesh4 + k + 1) -
                      (elem example_controls4 r (imesh * m_degree example_mesh4) +
                       m_legendreRoots example_mesh4 ! nat k *
                         (elem example_controls4 r (imesh * m_degree example_mesh4 + m_degree example_mesh4) -
                          elem example_controls4 r (imesh * m_degree example_mesh4)))"
    by blast
  have 2: "elem out 0 0 = 2853/250000 \<and> elem out 0 1 = - (9467/1000000) \<and> elem out 0 2 = 12341/1000000 \<and>
      elem example_interp4 0 0 = 7 \<and> elem example_interp4 0 1 = 7 \<and> elem example_interp4 0 2 = 7"
    using r[of 0 0 0] r[of 0 1 0] r[of 0 2 0]
    by (simp add: example_mesh4_def example_controls4_def example_interp4_def row_vector_def)
  have 3: "calcInterpolatingControlsImpl (example_mesh4\<lparr>getInterpolateControlMidpoints := False\<rparr>)
     example_controls4 example_interp4 = Some example_interp4"
    using c g by blast
  have 4: "calcInterpolatingControlsImpl (example_mesh4\<lparr>getNumControls := 0\<rparr>)
     example_controls4 example_interp4 = Some example_interp4"
    using d g by blast
  have 5: "calcInterpolatingMultipliersImpl example_mesh4 example_interp4 example_interp4 = Some example_interp4"
    using b f by blast
  show ?thesis using f h n 1 out 2 3 4 5 by blast
qed

subsection \<open>The defect constraints\<close>

lemma get1_row:
  assumes "size1 m = 1" "0 \<le> i" "i < size2 m"
  shows "get1 m i = Some (elem m 0 i)"
  using assms by (simp add: get1_def numel_def scalar_index_inrange)

lemma block_div_mod:
  fixes r :: int
  assumes "d * n \<le> r" "r < d * n + n"
  shows "r div n = d \<and> r mod n = r - d * n"
proof -
  have n: "0 < n" using assms by linarith
  have "r = (r - d * n) + d * n" by simp
  moreover have "0 \<le> r - d * n" "r - d * n < n" using assms by auto
  ultimately have "r div n = (r - d * n) div n + d" "r mod n = (r - d * n) mod n"
    by (metis div_mult_self1 n less_irrefl mult.commute add.commute div_mult_self2, metis mod_mult_self1 mult.commute add.commute mod_mult_self2)
  then show ?thesis using \<open>0 \<le> r - d * n\<close> \<open>r - d * n < n\<close> by simp
qed

lemma defect_inner_step:
  fixes out :: "('a::comm_ring_1) matrix"
  assumes sh: "defect_shapes E x xdot old"
    and inv: "defect_inv E x xdot old imesh d out"
    and res: "size1 res = getNumStates E" "size2 res = m_degree E"
      "elem res = (\<lambda>s k. defect_residual E x xdot imesh s k)"
    and i: "0 \<le> imesh" "imesh < m_numMeshIntervals E" and d: "0 \<le> d" "d < m_degree E"
  shows "\<exists>out'. do {
             column \<leftarrow> get_block res All (Index d);
             set_block out (Range (d * getNumStates E) ((d + 1) * getNumStates E)) (Index imesh) column
           } = Some out' \<and> defect_inv E x xdot old imesh (d + 1) out'"
proof -
  let ?NS = "getNumStates E" and ?deg = "m_degree E" and ?nmi = "m_numMeshIntervals E"
  have ns: "0 \<le> ?NS" and so: "?deg * ?NS \<le> size1 out" "?nmi \<le> size2 out"
    using sh inv by (simp_all add: defect_shapes_def defect_inv_def)
  let ?col = "\<lparr>size1 = ?NS, size2 = 1, elem = (\<lambda>r c'. elem res r (d + c'))\<rparr>"
  have col: "get_block res All (Index d) = Some ?col"
    using d res(1,2) by (simp add: get_block_def scalar_index_inrange)
  have a0: "0 \<le> d * ?NS" using d ns by simp
  have "(d + 1) * ?NS \<le> ?deg * ?NS" using d ns by (intro mult_right_mono) auto
  then have b1: "\<not> size1 out < (d + 1) * ?NS" using so by simp
  have b0: "\<not> (d + 1) * ?NS < 0" using d ns by (simp add: mult_less_0_iff)
  have rows: "slice_all (Range (d * ?NS) ((d + 1) * ?NS)) (size1 out) = Some (d * ?NS, ?NS)"
    using a0 b0 b1 ns by (auto simp: Let_def algebra_simps)
  have cols: "slice_all (Index imesh) (size2 out) = Some (imesh, 1)"
    using i so by (simp add: scalar_index_inrange)
  have sb: "set_block out (Range (d * ?NS) ((d + 1) * ?NS)) (Index imesh) ?col =
      Some (write_block out (d * ?NS) ?NS imesh 1 (elem ?col))"
    unfolding set_block_def rows cols by simp
  have eq: "do {
             column \<leftarrow> get_block res All (Index d);
             set_block out (Range (d * ?NS) ((d + 1) * ?NS)) (Index imesh) column
           } = Some (write_block out (d * ?NS) ?NS imesh 1 (elem ?col))"
    unfolding col by (simp add: sb)
  have el: "elem out r c = (if 0 \<le> c \<and> 0 \<le> r \<and>
            (c < imesh \<and> r < ?deg * ?NS \<or> c = imesh \<and> r < d * ?NS)
         then defect_residual E x xdot c (r mod ?NS) (r div ?NS)
         else elem old r c)" for r c
    using inv by (simp add: defect_inv_def)
  have new: "elem (write_block out (d * ?NS) ?NS imesh 1 (elem ?col)) r c =
        (if 0 \<le> c \<and> 0 \<le> r \<and>
            (c < imesh \<and> r < ?deg * ?NS \<or> c = imesh \<and> r < (d + 1) * ?NS)
         then defect_residual E x xdot c (r mod ?NS) (r div ?NS)
         else elem old r c)" for r c
  proof (cases "c = imesh \<and> d * ?NS \<le> r \<and> r < d * ?NS + ?NS")
    case True
    then have dm: "r div ?NS = d" "r mod ?NS = r - d * ?NS"
      using block_div_mod[of d ?NS r] by auto
    have "elem (write_block out (d * ?NS) ?NS imesh 1 (elem ?col)) r c = elem res (r - d * ?NS) d"
      using True by (simp add: write_block_def)
    also have "\<dots> = defect_residual E x xdot imesh (r mod ?NS) (r div ?NS)"
      unfolding dm by (simp add: res(3))
    finally show ?thesis using True a0 i by (auto simp: algebra_simps)
  next
    case False
    then have "elem (write_block out (d * ?NS) ?NS imesh 1 (elem ?col)) r c = elem out r c"
      by (auto simp: write_block_def)
    moreover have "(c = imesh \<and> r < (d + 1) * ?NS) = (c = imesh \<and> r < d * ?NS)" if "0 \<le> r"
      using False that ns by (auto simp: algebra_simps)
    ultimately show ?thesis using el[of r c] by auto
  qed
  have "defect_inv E x xdot old imesh (d + 1) (write_block out (d * ?NS) ?NS imesh 1 (elem ?col))"
    unfolding defect_inv_def using new inv by (simp add: defect_inv_def write_block_def)
  then show ?thesis unfolding eq by blast
qed

lemma defect_next_interval:
  assumes "defect_inv E x xdot old imesh (m_degree E) out"
  shows "defect_inv E x xdot old (imesh + 1) 0 out"
proof -
  have "(c < imesh \<and> r < m_degree E * getNumStates E \<or> c = imesh \<and> r < m_degree E * getNumStates E) =
        (c < imesh + 1 \<and> r < m_degree E * getNumStates E \<or> c = imesh + 1 \<and> r < 0 * getNumStates E)"
    if "0 \<le> r" for r c :: int
    using that by auto
  then show ?thesis using assms unfolding defect_inv_def by auto
qed

lemma defect_outer_step:
  fixes out :: "('a::comm_ring_1) matrix"
  assumes sh: "defect_shapes E x xdot old"
    and inv: "defect_inv E x xdot old imesh 0 out"
    and i: "0 \<le> imesh" "imesh < m_numMeshIntervals E"
  shows "\<exists>out'. (let igrid = imesh * m_degree E in
           do {
             t1 \<leftarrow> get1 (m_times E) (igrid + m_degree E);
             t0 \<leftarrow> get1 (m_times E) igrid;
             let h = t1 - t0;
             x_imesh \<leftarrow> vector_at x imesh;
             x_i \<leftarrow> get_block x_imesh All (Range 0 (m_degree E + 1));
             xdot_i \<leftarrow> get_block xdot All (Range (igrid + 1) (igrid + m_degree E + 1));
             product \<leftarrow> mtimes x_i (m_differentiationMatrix E);
             residual \<leftarrow> binary (-) (smult h xdot_i) product;
             for_loop 0 (m_degree E)
               (\<lambda>d defects.
                  do {
                    column \<leftarrow> get_block residual All (Index d);
                    set_block defects (Range (d * getNumStates E) ((d + 1) * getNumStates E)) (Index imesh) column
                  })
               out
           }) = Some out' \<and> defect_inv E x xdot old (imesh + 1) 0 out'"
proof -
  let ?NS = "getNumStates E" and ?deg = "m_degree E" and ?nmi = "m_numMeshIntervals E"
  let ?g = "imesh * ?deg" and ?D = "m_differentiationMatrix E" and ?xm = "x ! nat imesh"
  have deg: "1 \<le> ?deg" and n: "m_numGridPoints E = ?nmi * ?deg + 1"
    and tm: "size1 (m_times E) = 1" "size2 (m_times E) = m_numGridPoints E"
    and D: "size1 ?D = ?deg + 1" "size2 ?D = ?deg"
    and lx: "int (length x) = ?nmi"
    and xd: "size1 xdot = ?NS" "size2 xdot = m_numGridPoints E"
    using sh by (simp_all add: defect_shapes_def)
  have "?xm \<in> set x" using i lx by (intro nth_mem) auto
  then have xm: "size1 ?xm = ?NS" "size2 ?xm = ?deg + 1"
    using sh by (simp_all add: defect_shapes_def)
  have g0: "0 \<le> ?g" using i deg by simp
  have "?g \<le> (?nmi - 1) * ?deg" using i deg by (intro mult_right_mono) auto
  then have g1: "?g + ?deg < m_numGridPoints E" using n by (simp add: algebra_simps)
  have t1: "get1 (m_times E) (?g + ?deg) = Some (elem (m_times E) 0 (?g + ?deg))"
    using tm g0 g1 deg by (intro get1_row) auto
  have t0: "get1 (m_times E) ?g = Some (elem (m_times E) 0 ?g)"
    using tm g0 g1 deg by (intro get1_row) auto
  have va: "vector_at x imesh = Some ?xm" using i lx by (simp add: vector_at_def)
  let ?x_i = "\<lparr>size1 = ?NS, size2 = ?deg + 1, elem = (\<lambda>r c. elem ?xm r c)\<rparr>"
  have x_i: "get_block ?xm All (Range 0 (?deg + 1)) = Some ?x_i"
    using xm deg by (simp add: get_block_def Let_def)
  let ?xdot_i = "\<lparr>size1 = ?NS, size2 = ?deg, elem = (\<lambda>r c. elem xdot r (?g + 1 + c))\<rparr>"
  have xdot_i: "get_block xdot All (Range (?g + 1) (?g + ?deg + 1)) = Some ?xdot_i"
    using xd g0 g1 deg by (simp add: get_block_def Let_def)
  let ?prod = "\<lparr>size1 = ?NS, size2 = ?deg,
      elem = (\<lambda>r c. \<Sum>k = 0..<?deg + 1. elem ?xm r k * elem ?D k c)\<rparr>"
  have prod: "mtimes ?x_i ?D = Some ?prod"
    using D deg by (simp add: mtimes_def is_scalar_def)
  let ?res = "\<lparr>size1 = ?NS, size2 = ?deg,
      elem = (\<lambda>s k. defect_residual E x xdot imesh s k)\<rparr>"
  have res: "binary (-) (smult (elem (m_times E) 0 (?g + ?deg) - elem (m_times E) 0 ?g) ?xdot_i) ?prod = Some ?res"
    by (simp add: binary_def smult_def defect_residual_def)
  have "\<exists>out'. for_loop 0 ?deg
               (\<lambda>d defects.
                  do {
                    column \<leftarrow> get_block ?res All (Index d);
                    set_block defects (Range (d * ?NS) ((d + 1) * ?NS)) (Index imesh) column
                  })
               out = Some out' \<and> defect_inv E x xdot old imesh ?deg out'"
  proof (rule for_loop_rule[where I = "\<lambda>d. defect_inv E x xdot old imesh d"])
    show "defect_inv E x xdot old imesh 0 out" by fact
    show "0 \<le> ?deg" using deg by simp
  next
    fix d and t :: "'a matrix"
    assume "0 \<le> d" "d < ?deg" "defect_inv E x xdot old imesh d t"
    then show "\<exists>t'. do {
                    column \<leftarrow> get_block ?res All (Index d);
                    set_block t (Range (d * ?NS) ((d + 1) * ?NS)) (Index imesh) column
                  } = Some t' \<and> defect_inv E x xdot old imesh (d + 1) t'"
      using defect_inner_step[OF sh _ _ _ _ i, of d t ?res] by simp
  qed
  then obtain out' where
    lp: "for_loop 0 ?deg
               (\<lambda>d defects.
                  do {
                    column \<leftarrow> get_block ?res All (Index d);
                    set_block defects (Range (d * ?NS) ((d + 1) * ?NS)) (Index imesh) column
                  })
               out = Some out'" and inv': "defect_inv E x xdot old imesh ?deg out'"
    by blast
  have "(let igrid = ?g in
           do {
             t1 \<leftarrow> get1 (m_times E) (igrid + ?deg);
             t0 \<leftarrow> get1 (m_times E) igrid;
             let h = t1 - t0;
             x_imesh \<leftarrow> vector_at x imesh;
             x_i \<leftarrow> get_block x_imesh All (Range 0 (?deg + 1));
             xdot_i \<leftarrow> get_block xdot All (Range (igrid + 1) (igrid + ?deg + 1));
             product \<leftarrow> mtimes x_i ?D;
             residual \<leftarrow> binary (-) (smult h xdot_i) product;
             for_loop 0 ?deg
               (\<lambda>d defects.
                  do {
                    column \<leftarrow> get_block residual All (Index d);
                    set_block defects (Range (d * ?NS) ((d + 1) * ?NS)) (Index imesh) column
                  })
               out
           }) = Some out'"
    unfolding Let_def t1 t0 va by (simp add: x_i xdot_i prod res lp)
  with defect_next_interval[OF inv'] show ?thesis by blast
qed

lemma calcDefectsImpl_char:
  fixes old :: "('a::comm_ring_1) matrix"
  assumes sh: "defect_shapes E x xdot old"
  shows "\<exists>out. calcDefectsImpl E x xdot old = Some out \<and>
     defect_inv E x xdot old (m_numMeshIntervals E) 0 out"
  unfolding calcDefectsImpl_def Let_def
proof (rule for_loop_rule[where I = "\<lambda>imesh. defect_inv E x xdot old imesh 0"])
  show "defect_inv E x xdot old 0 0 old" by (auto simp: defect_inv_def)
  show "0 \<le> m_numMeshIntervals E" using sh by (simp add: defect_shapes_def)
next
  fix i and t :: "'a matrix"
  assume "0 \<le> i" "i < m_numMeshIntervals E" "defect_inv E x xdot old i 0 t"
  then show "\<exists>t'. do {
             t1 \<leftarrow> get1 (m_times E) (i * m_degree E + m_degree E);
             t0 \<leftarrow> get1 (m_times E) (i * m_degree E);
             x_imesh \<leftarrow> vector_at x i;
             x_i \<leftarrow> get_block x_imesh All (Range 0 (m_degree E + 1));
             xdot_i \<leftarrow> get_block xdot All (Range (i * m_degree E + 1) (i * m_degree E + m_degree E + 1));
             product \<leftarrow> mtimes x_i (m_differentiationMatrix E);
             residual \<leftarrow> binary (-) (smult (t1 - t0) xdot_i) product;
             for_loop 0 (m_degree E)
               (\<lambda>d defects.
                  do {
                    column \<leftarrow> get_block residual All (Index d);
                    set_block defects (Range (d * getNumStates E) ((d + 1) * getNumStates E)) (Index i) column
                  })
               t
           } = Some t' \<and> defect_inv E x xdot old (i + 1) 0 t'"
    using defect_outer_step[OF sh, of i t] by (simp add: Let_def)
qed

text \<open>
  Claim C1. For every mesh interval \<open>imesh\<close> in \<open>[0, numMeshIntervals)\<close> and every
  local node \<open>d\<close> in \<open>[0, degree)\<close>, \<^verbatim>\<open>calcDefectsImpl\<close> writes into the rows
  \<open>[d \<cdot> numStates, (d + 1) \<cdot> numStates)\<close> of column \<open>imesh\<close> of the defects the column
  \<open>d\<close> of the residual \<open>h \<cdot> xdot_interior - x_local \<cdot> D\<close>: the entry in row
  \<open>d \<cdot> numStates + s\<close> is \<open>h \<cdot> xdot(s, igrid + 1 + d) - (\<Sum>j \<le> degree. x[imesh](s, j) \<cdot> D(j, d))\<close>
  with \<open>igrid = imesh \<cdot> degree\<close> and \<open>h\<close> the difference of the grid times at the
  indices \<open>igrid + degree\<close> and \<open>igrid\<close>.
\<close>

theorem calcDefectsImpl_residual:
  fixes E :: "('a::comm_ring_1) transcription"
  assumes "defect_shapes E x xdot defects"
  shows "\<exists>out. calcDefectsImpl E x xdot defects = Some out \<and>
     (\<forall>imesh d s. 0 \<le> imesh \<and> imesh < m_numMeshIntervals E \<and> 0 \<le> d \<and> d < m_degree E \<and>
          0 \<le> s \<and> s < getNumStates E \<longrightarrow>
        elem out (d * getNumStates E + s) imesh =
          (elem (m_times E) 0 (imesh * m_degree E + m_degree E) - elem (m_times E) 0 (imesh * m_degree E)) *
             elem xdot s (imesh * m_degree E + 1 + d) -
          (\<Sum>j = 0..<m_degree E + 1. elem (x ! nat imesh) s j * elem (m_differentiationMatrix E) j d))"
proof -
  let ?NS = "getNumStates E" and ?deg = "m_degree E" and ?nmi = "m_numMeshIntervals E"
  from calcDefectsImpl_char[OF assms] obtain out where
    out: "calcDefectsImpl E x xdot defects = Some out"
    and inv: "defect_inv E x xdot defects ?nmi 0 out" by blast
  have "elem out (d * ?NS + s) imesh = defect_residual E x xdot imesh s d"
    if "0 \<le> imesh" "imesh < ?nmi" "0 \<le> d" "d < ?deg" "0 \<le> s" "s < ?NS" for imesh d s
  proof -
    let ?r = "d * ?NS + s"
    have dm: "?r div ?NS = d" "?r mod ?NS = s"
      using that by (simp_all add: add.commute[of "d * ?NS"])
    have r0: "0 \<le> d * ?NS" using that by simp
    have "d * ?NS \<le> (?deg - 1) * ?NS" using that by (intro mult_right_mono) auto
    then have r1: "?r < ?deg * ?NS" using that by (simp add: algebra_simps)
    have "elem out ?r imesh = defect_residual E x xdot imesh (?r mod ?NS) (?r div ?NS)"
      using inv that r0 r1 unfolding defect_inv_def by simp
    then show ?thesis unfolding dm .
  qed
  then show ?thesis using out by (auto simp: defect_residual_def)
qed

theorem calcDefectsImpl_residual_witness:
  "defect_shapes example_mesh2 example_x2 example_xdot2 example_defects2 \<and>
   (\<exists>out. calcDefectsImpl example_mesh2 example_x2 example_xdot2 example_defects2 = Some out \<and>
      elem out 0 0 = 0 \<and> elem out 1 0 = 0 \<and> elem out 0 1 = 0 \<and> elem out 1 1 = 1)"
proof -
  have h: "defect_shapes example_mesh2 example_x2 example_xdot2 example_defects2"
    by (simp add: defect_shapes_def example_mesh2_def example_x2_def example_xdot2_def
        example_defects2_def row_vector_def)
  from calcDefectsImpl_residual[OF h] obtain out where
    out: "calcDefectsImpl example_mesh2 example_x2 example_xdot2 example_defects2 = Some out"
    and r: "\<And>imesh d s. 0 \<le> imesh \<and> imesh < m_numMeshIntervals example_mesh2 \<and> 0 \<le> d \<and> d < m_degree example_mesh2 \<and>
          0 \<le> s \<and> s < getNumStates example_mesh2 \<Longrightarrow>
        elem out (d * getNumStates example_mesh2 + s) imesh =
          (elem (m_times example_mesh2) 0 (imesh * m_degree example_mesh2 + m_degree example_mesh2) -
             elem (m_times example_mesh2) 0 (imesh * m_degree example_mesh2)) *
             elem example_xdot2 s (imesh * m_degree example_mesh2 + 1 + d) -
          (\<Sum>j = 0..<m_degree example_mesh2 + 1.
              elem (example_x2 ! nat imesh) s j * elem (m_differentiationMatrix example_mesh2) j d)"
    by blast
  have "elem out 0 0 = 0" "elem out 1 0 = 0" "elem out 0 1 = 0" "elem out 1 1 = 1"
    using r[of 0 0 0] r[of 0 1 0] r[of 1 0 0] r[of 1 1 0]
    by (simp_all add: example_mesh2_def example_x2_def example_xdot2_def row_vector_def sum_int_unfold)
  with h out show ?thesis by blast
qed

subsection \<open>What the operations write\<close>

lemma card_int_block:
  "card ({0..<a} \<times> {0..<b::int}) = nat a * nat b"
  by (simp add: card_cartesian_product)

text \<open>
  Claim C7. \<^verbatim>\<open>calcDefectsImpl\<close> writes exactly the entries of the
  \<open>(degree \<cdot> numStates) \<times> numMeshIntervals\<close> block of the defects: every entry of the
  block receives the residual (column \<open>imesh\<close> holds the flattened
  \<open>numStates \<times> degree\<close> block of interval \<open>imesh\<close>), which does not depend on the
  previous content, every other entry and the shape of the output are unchanged, and the
  block has \<open>numMeshIntervals \<cdot> degree \<cdot> numStates\<close> entries. Likewise the
  interpolation writes exactly the first \<open>numMeshIntervals \<cdot> (degree - 1)\<close> columns, in all
  rows of the variables (the controls or the multipliers), and nothing else.
\<close>

theorem output_shapes:
  fixes E :: "('a::comm_ring_1) transcription"
  assumes "defect_shapes E x xdot defects" and "interp_shapes E variables interpVariables"
  shows "(\<exists>out. calcDefectsImpl E x xdot defects = Some out \<and>
            size1 out = size1 defects \<and> size2 out = size2 defects \<and>
            (\<forall>r c. 0 \<le> r \<and> r < m_degree E * getNumStates E \<and> 0 \<le> c \<and> c < m_numMeshIntervals E \<longrightarrow>
               elem out r c = defect_residual E x xdot c (r mod getNumStates E) (r div getNumStates E)) \<and>
            (\<forall>r c. \<not> (0 \<le> r \<and> r < m_degree E * getNumStates E \<and> 0 \<le> c \<and> c < m_numMeshIntervals E) \<longrightarrow>
               elem out r c = elem defects r c)) \<and>
         card ({0..<m_degree E * getNumStates E} \<times> {0..<m_numMeshIntervals E}) =
           nat (m_numMeshIntervals E * m_degree E * getNumStates E) \<and>
         (\<exists>out. calcInterpolatingVariables E variables interpVariables = Some out \<and>
            (getNumControls E \<noteq> 0 \<and> getInterpolateControlMidpoints E \<longrightarrow>
               calcInterpolatingControlsImpl E variables interpVariables = Some out) \<and>
            (getNumMultipliers E \<noteq> 0 \<and> getInterpolateMultiplierMidpoints E \<longrightarrow>
               calcInterpolatingMultipliersImpl E variables interpVariables = Some out) \<and>
            size1 out = size1 interpVariables \<and> size2 out = size2 interpVariables \<and>
            (\<forall>r c. 0 \<le> r \<and> r < size1 variables \<and> 0 \<le> c \<and> c < m_numMeshIntervals E * (m_degree E - 1) \<longrightarrow>
               elem out r c =
                 interpolation_residual E variables (c div (m_degree E - 1)) (c mod (m_degree E - 1)) r) \<and>
            (\<forall>r c. \<not> (0 \<le> r \<and> r < size1 variables \<and> 0 \<le> c \<and> c < m_numMeshIntervals E * (m_degree E - 1)) \<longrightarrow>
               elem out r c = elem interpVariables r c)) \<and>
         card ({0..<size1 variables} \<times> {0..<m_numMeshIntervals E * (m_degree E - 1)}) =
           nat (m_numMeshIntervals E * (m_degree E - 1) * size1 variables)"
proof -
  let ?NS = "getNumStates E" and ?deg = "m_degree E" and ?nmi = "m_numMeshIntervals E"
  have nn: "0 \<le> ?nmi" "1 \<le> ?deg" "0 \<le> ?NS" "0 \<le> size1 variables"
    and sz: "size1 interpVariables = size1 variables"
    using assms by (simp_all add: defect_shapes_def interp_shapes_def)
  from calcDefectsImpl_char[OF assms(1)] obtain out where
    out: "calcDefectsImpl E x xdot defects = Some out"
    and inv: "defect_inv E x xdot defects ?nmi 0 out" by blast
  have d: "size1 out = size1 defects \<and> size2 out = size2 defects \<and>
            (\<forall>r c. 0 \<le> r \<and> r < ?deg * ?NS \<and> 0 \<le> c \<and> c < ?nmi \<longrightarrow>
               elem out r c = defect_residual E x xdot c (r mod ?NS) (r div ?NS)) \<and>
            (\<forall>r c. \<not> (0 \<le> r \<and> r < ?deg * ?NS \<and> 0 \<le> c \<and> c < ?nmi) \<longrightarrow>
               elem out r c = elem defects r c)"
    using inv unfolding defect_inv_def by auto
  from calcInterpolatingVariables_char[OF assms(2)] obtain out2 where
    out2: "calcInterpolatingVariables E variables interpVariables = Some out2"
    and inv2: "interp_inv E variables interpVariables (?nmi * (?deg - 1)) out2" by blast
  have i: "size1 out2 = size1 interpVariables \<and> size2 out2 = size2 interpVariables \<and>
            (\<forall>r c. 0 \<le> r \<and> r < size1 variables \<and> 0 \<le> c \<and> c < ?nmi * (?deg - 1) \<longrightarrow>
               elem out2 r c =
                 interpolation_residual E variables (c div (?deg - 1)) (c mod (?deg - 1)) r) \<and>
            (\<forall>r c. \<not> (0 \<le> r \<and> r < size1 variables \<and> 0 \<le> c \<and> c < ?nmi * (?deg - 1)) \<longrightarrow>
               elem out2 r c = elem interpVariables r c)"
    using inv2 sz unfolding interp_inv_def by auto
  have g: "(getNumControls E \<noteq> 0 \<and> getInterpolateControlMidpoints E \<longrightarrow>
               calcInterpolatingControlsImpl E variables interpVariables = Some out2) \<and>
            (getNumMultipliers E \<noteq> 0 \<and> getInterpolateMultiplierMidpoints E \<longrightarrow>
               calcInterpolatingMultipliersImpl E variables interpVariables = Some out2)"
    using out2 by (simp add: calcInterpolatingControlsImpl_def calcInterpolatingMultipliersImpl_def)
  have c1: "card ({0..<?deg * ?NS} \<times> {0..<?nmi}) = nat (?nmi * ?deg * ?NS)"
    using nn by (simp add: card_int_block nat_mult_distrib mult.commute mult.left_commute)
  have c2: "card ({0..<size1 variables} \<times> {0..<?nmi * (?deg - 1)}) =
           nat (?nmi * (?deg - 1) * size1 variables)"
    using nn by (simp add: card_int_block nat_mult_distrib mult.commute)
  show ?thesis using out d out2 i g c1 c2 by blast
qed

theorem output_shapes_witness:
  "defect_shapes example_mesh2 example_x2 example_xdot2 example_defects_wide2 \<and>
   interp_shapes example_mesh2 example_controls2 example_interp_wide2 \<and>
   (\<exists>out. calcDefectsImpl example_mesh2 example_x2 example_xdot2 example_defects_wide2 = Some out \<and>
      size1 out = 3 \<and> size2 out = 3 \<and>
      elem out 2 0 = 7 \<and> elem out 2 1 = 7 \<and> elem out 0 2 = 7 \<and> elem out 1 2 = 7 \<and> elem out 2 2 = 7) \<and>
   (\<exists>out. calcInterpolatingControlsImpl example_mesh2 example_controls2 example_interp_wide2 = Some out \<and>
      size1 out = 1 \<and> size2 out = 3 \<and>
      elem out 0 0 = 1/6 \<and> elem out 0 1 = - (1/6) \<and> elem out 0 2 = 9)"
proof -
  have h: "defect_shapes example_mesh2 example_x2 example_xdot2 example_defects_wide2"
    "interp_shapes example_mesh2 example_controls2 example_interp_wide2"
    by (simp_all add: defect_shapes_def interp_shapes_def example_mesh2_def example_x2_def example_xdot2_def
        example_defects_wide2_def example_controls2_def example_interp_wide2_def row_vector_def)
  have a: "getNumControls example_mesh2 \<noteq> 0 \<and> getInterpolateControlMidpoints example_mesh2"
    by (simp add: example_mesh2_def)
  note t = output_shapes[OF h]
  from t obtain out where
    out: "calcDefectsImpl example_mesh2 example_x2 example_xdot2 example_defects_wide2 = Some out"
      "size1 out = size1 example_defects_wide2" "size2 out = size2 example_defects_wide2"
    and fr: "\<And>r c. \<not> (0 \<le> r \<and> r < m_degree example_mesh2 * getNumStates example_mesh2 \<and> 0 \<le> c \<and>
                 c < m_numMeshIntervals example_mesh2) \<Longrightarrow>
               elem out r c = elem example_defects_wide2 r c"
    by blast
  from t a obtain out2 where
    out2: "calcInterpolatingControlsImpl example_mesh2 example_controls2 example_interp_wide2 = Some out2"
      "size1 out2 = size1 example_interp_wide2" "size2 out2 = size2 example_interp_wide2"
    and w2: "\<And>r c. 0 \<le> r \<and> r < size1 example_controls2 \<and> 0 \<le> c \<and>
              c < m_numMeshIntervals example_mesh2 * (m_degree example_mesh2 - 1) \<Longrightarrow>
               elem out2 r c =
                 interpolation_residual example_mesh2 example_controls2 (c div (m_degree example_mesh2 - 1))
                   (c mod (m_degree example_mesh2 - 1)) r"
    and fr2: "\<And>r c. \<not> (0 \<le> r \<and> r < size1 example_controls2 \<and> 0 \<le> c \<and>
              c < m_numMeshIntervals example_mesh2 * (m_degree example_mesh2 - 1)) \<Longrightarrow>
               elem out2 r c = elem example_interp_wide2 r c"
    by blast
  have 1: "size1 out = 3 \<and> size2 out = 3 \<and>
      elem out 2 0 = 7 \<and> elem out 2 1 = 7 \<and> elem out 0 2 = 7 \<and> elem out 1 2 = 7 \<and> elem out 2 2 = 7"
    using out(2,3) fr[of 2 0] fr[of 2 1] fr[of 0 2] fr[of 1 2] fr[of 2 2]
    by (simp add: example_mesh2_def example_defects_wide2_def)
  have 2: "size1 out2 = 1 \<and> size2 out2 = 3 \<and>
      elem out2 0 0 = 1/6 \<and> elem out2 0 1 = - (1/6) \<and> elem out2 0 2 = 9"
    using out2(2,3) w2[of 0 0] w2[of 0 1] fr2[of 0 2]
    by (simp add: example_mesh2_def example_controls2_def example_interp_wide2_def row_vector_def
        interpolation_residual_def)
  show ?thesis using h out(1) out2(1) 1 2 by blast
qed

subsection \<open>Component outputs\<close>

text \<open>
  Copy assignment from another object does not return: each of the three functions
  ends up calling the copy assignment with the same arguments.
\<close>

lemma assign_returns_only_on_self:
  assumes "assign callee this self src source = Some r"
  shows "src = this"
proof (rule assign.raw_induct[where P = "\<lambda>callee this self src source r. src = this", OF _ assms])
  fix f :: "assignment \<Rightarrow> addr \<Rightarrow> ('a, 'b) output_T \<Rightarrow> addr \<Rightarrow> ('a, 'b) output_T \<Rightarrow> (exn + ('a, 'b) output_T) option"
  fix callee this self src source r
  assume IH: "\<And>callee this self src source r. f callee this self src source = Some r \<Longrightarrow> src = this"
  assume step: "(case callee of
        OutputAssign \<Rightarrow>
          if src = this then Some (Inr self)
          else Option.bind (f AbstractOutputAssign this self src source)
                 (\<lambda>r. case r of
                         Inl e \<Rightarrow> Some (Inl e)
                       | Inr self' \<Rightarrow>
                           Some (Inr (self'\<lparr>outputFcn := outputFcn source,
                                        channels := (\<lambda>k. case channels source k of
                                                           None \<Rightarrow> None
                                                         | Some c \<Rightarrow> Some (c\<lparr>channel_output := Some this\<rparr>))\<rparr>)))
      | AbstractOutputAssign \<Rightarrow> f CompatibleAssign this self src source
      | CompatibleAssign \<Rightarrow> f OutputAssign this self src source) = Some r"
  show "src = this"
  proof (cases callee)
    case OutputAssign
    with step IH[of AbstractOutputAssign this self src source] show ?thesis
      by (auto split: if_splits simp: bind_eq_Some_conv)
  next
    case AbstractOutputAssign
    with step IH[of CompatibleAssign this self src source] show ?thesis by simp
  next
    case CompatibleAssign
    with step IH[of OutputAssign this self src source] show ?thesis by simp
  qed
qed

lemma assign_diverges:
  "src \<noteq> this \<Longrightarrow> assign callee this self src source = None"
  using assign_returns_only_on_self[of callee this self src source] by (cases "assign callee this self src source") auto

text \<open>
  Claim C9, as stated, says that \<^verbatim>\<open>getValue\<close> on a non-list output raises only when
  the state's stage is below \<^verbatim>\<open>dependsOnStage\<close>, and that a raising call has not
  evaluated the output function. At an adequate stage it raises when the
  \<^verbatim>\<open>std::function\<close> is empty, and when the bound function itself raises, in the second
  case after the function has been called.
\<close>

theorem getValue_throws_at_adequate_stage:
  "\<not> isList example_unbound \<and>
   \<not> getSystemStage \<lparr>getSystemStage = 7\<rparr> < dependsOnStage example_unbound \<and>
   fst (getValue 0 example_unbound \<lparr>getSystemStage = 7\<rparr>) = Inl BadFunctionCall \<and>
   \<not> isList example_raising \<and>
   \<not> getSystemStage \<lparr>getSystemStage = 7\<rparr> < dependsOnStage example_raising \<and>
   fst (getValue 0 example_raising \<lparr>getSystemStage = 7\<rparr>) = Inl (Raised ''no value'') \<and>
   snd (snd (getValue 0 example_raising \<lparr>getSystemStage = 7\<rparr>)) = [(None, \<lparr>getSystemStage = 7\<rparr>, [])]"
  by (simp add: example_unbound_def example_raising_def Output_def getValue_def)

text \<open>
  Claim C9, amended. \<^verbatim>\<open>Output<T>::getValue(state)\<close> on a list output raises
  \<^verbatim>\<open>Exception\<close>, and on a non-list output whose \<^verbatim>\<open>dependsOnStage\<close> is strictly above the
  state's system stage it raises \<^verbatim>\<open>StageTooLow\<close>; in both cases the bound function is
  not called. On a non-list output at an adequate stage, an empty \<^verbatim>\<open>std::function\<close>
  raises \<^verbatim>\<open>bad_function_call\<close>; otherwise the bound function is called once, with the
  owner, the state and the empty channel name, and \<^verbatim>\<open>getValue\<close> returns exactly the
  value the call produces or raises exactly what the call raises. Hence, for a bound
  function that returns a value at the state, \<^verbatim>\<open>getValue\<close> on a non-list output raises
  if and only if the stage is strictly below \<^verbatim>\<open>dependsOnStage\<close>, and then without
  having called the function.
\<close>

theorem getValue_outcome:
  fixes out :: "('z state_scheme, 'T) output_T"
  shows
    "(isList out \<longrightarrow>
        fst (getValue nan out st) = Inl (Exception ''TODO'') \<and> snd (snd (getValue nan out st)) = []) \<and>
     (\<not> isList out \<and> getSystemStage st < dependsOnStage out \<longrightarrow>
        fst (getValue nan out st) =
          Inl (StageTooLow (getSystemStage st) (dependsOnStage out) ''Output::getValue(state)'') \<and>
        snd (snd (getValue nan out st)) = []) \<and>
     (\<not> isList out \<and> \<not> getSystemStage st < dependsOnStage out \<and> outputFcn out = None \<longrightarrow>
        fst (getValue nan out st) = Inl BadFunctionCall \<and> snd (snd (getValue nan out st)) = []) \<and>
     (\<forall>f. \<not> isList out \<and> \<not> getSystemStage st < dependsOnStage out \<and> outputFcn out = Some f \<longrightarrow>
        fst (getValue nan out st) = f (owner out) st [] \<and>
        snd (snd (getValue nan out st)) = [(owner out, st, [])]) \<and>
     (\<forall>f v. outputFcn out = Some f \<and> f (owner out) st [] = Inr v \<longrightarrow>
        (\<not> isList out \<longrightarrow>
           (isl (fst (getValue nan out st)) \<longleftrightarrow> getSystemStage st < dependsOnStage out)) \<and>
        (\<not> isl (fst (getValue nan out st)) \<longrightarrow>
           fst (getValue nan out st) = Inr v \<and>
           snd (snd (getValue nan out st)) = [(owner out, st, [])]) \<and>
        (isl (fst (getValue nan out st)) \<longrightarrow> snd (snd (getValue nan out st)) = []))"
  by (auto simp: getValue_def Let_def split: option.splits sum.splits)

theorem getValue_outcome_witness:
  "\<not> isList example_output \<and>
   (\<exists>f. outputFcn example_output = Some f \<and>
        f (owner example_output) \<lparr>getSystemStage = 7\<rparr> [] = Inr 42 \<and>
        f (owner example_output) \<lparr>getSystemStage = 3\<rparr> [] = Inr 18) \<and>
   \<not> getSystemStage \<lparr>getSystemStage = 7\<rparr> < dependsOnStage example_output \<and>
   fst (getValue 0 example_output \<lparr>getSystemStage = 7\<rparr>) = Inr 42 \<and>
   snd (snd (getValue 0 example_output \<lparr>getSystemStage = 7\<rparr>)) = [(Some 20, \<lparr>getSystemStage = 7\<rparr>, [])] \<and>
   getSystemStage \<lparr>getSystemStage = 3\<rparr> < dependsOnStage example_output \<and>
   fst (getValue 0 example_output \<lparr>getSystemStage = 3\<rparr>) = Inl (StageTooLow 3 5 ''Output::getValue(state)'') \<and>
   snd (snd (getValue 0 example_output \<lparr>getSystemStage = 3\<rparr>)) = [] \<and>
   \<not> isList example_unbound \<and> outputFcn example_unbound = None \<and>
   fst (getValue 0 example_unbound \<lparr>getSystemStage = 7\<rparr>) = Inl BadFunctionCall \<and>
   snd (snd (getValue 0 example_unbound \<lparr>getSystemStage = 7\<rparr>)) = [] \<and>
   fst (getValue 0 example_unbound \<lparr>getSystemStage = 3\<rparr>) = Inl (StageTooLow 3 5 ''Output::getValue(state)'') \<and>
   \<not> isList example_raising \<and>
   fst (getValue 0 example_raising \<lparr>getSystemStage = 7\<rparr>) = Inl (Raised ''no value'') \<and>
   snd (snd (getValue 0 example_raising \<lparr>getSystemStage = 7\<rparr>)) = [(None, \<lparr>getSystemStage = 7\<rparr>, [])]"
proof -
  let ?f = "\<lambda>(component :: addr option) (st :: state) (channel :: string). (Inr (6 * int (getSystemStage st)) :: exn + int)"
  let ?g = "\<lambda>(component :: addr option) (st :: state) (channel :: string). (Inl (Raised ''no value'') :: exn + int)"
  have f: "outputFcn example_output = Some ?f" "\<not> isList example_output"
    "owner example_output = Some 20" "dependsOnStage example_output = 5"
    by (simp_all add: example_output_def Output_def)
  have u: "outputFcn example_unbound = None" "\<not> isList example_unbound" "dependsOnStage example_unbound = 5"
    by (simp_all add: example_unbound_def Output_def)
  have r: "outputFcn example_raising = Some ?g" "\<not> isList example_raising" "dependsOnStage example_raising = 5"
    "owner example_raising = None"
    by (simp_all add: example_raising_def Output_def)
  have v: "?f (owner example_output) \<lparr>getSystemStage = 7\<rparr> [] = Inr 42"
    "?f (owner example_output) \<lparr>getSystemStage = 3\<rparr> [] = Inr 18" by simp_all
  note a = getValue_outcome[of example_output 0 "\<lparr>getSystemStage = 7\<rparr>",
      THEN conjunct2, THEN conjunct2, THEN conjunct2, THEN conjunct1, rule_format, of ?f]
  note b = getValue_outcome[of example_output 0 "\<lparr>getSystemStage = 3\<rparr>",
      THEN conjunct2, THEN conjunct1, rule_format]
  note c = getValue_outcome[of example_unbound 0 "\<lparr>getSystemStage = 7\<rparr>",
      THEN conjunct2, THEN conjunct2, THEN conjunct1, rule_format]
  note d = getValue_outcome[of example_unbound 0 "\<lparr>getSystemStage = 3\<rparr>",
      THEN conjunct2, THEN conjunct1, rule_format]
  note e = getValue_outcome[of example_raising 0 "\<lparr>getSystemStage = 7\<rparr>",
      THEN conjunct2, THEN conjunct2, THEN conjunct2, THEN conjunct1, rule_format, of ?g]
  have a1: "fst (getValue 0 example_output \<lparr>getSystemStage = 7\<rparr>) = Inr 42 \<and>
     snd (snd (getValue 0 example_output \<lparr>getSystemStage = 7\<rparr>)) = [(Some 20, \<lparr>getSystemStage = 7\<rparr>, [])]"
    using a f by simp
  have b1: "fst (getValue 0 example_output \<lparr>getSystemStage = 3\<rparr>) = Inl (StageTooLow 3 5 ''Output::getValue(state)'') \<and>
     snd (snd (getValue 0 example_output \<lparr>getSystemStage = 3\<rparr>)) = []"
    using b f by simp
  have c1: "fst (getValue 0 example_unbound \<lparr>getSystemStage = 7\<rparr>) = Inl BadFunctionCall \<and>
     snd (snd (getValue 0 example_unbound \<lparr>getSystemStage = 7\<rparr>)) = []"
    using c u by simp
  have d1: "fst (getValue 0 example_unbound \<lparr>getSystemStage = 3\<rparr>) = Inl (StageTooLow 3 5 ''Output::getValue(state)'')"
    using d u by simp
  have e1: "fst (getValue 0 example_raising \<lparr>getSystemStage = 7\<rparr>) = Inl (Raised ''no value'') \<and>
     snd (snd (getValue 0 example_raising \<lparr>getSystemStage = 7\<rparr>)) = [(None, \<lparr>getSystemStage = 7\<rparr>, [])]"
    using e r by simp
  have x: "\<exists>f. outputFcn example_output = Some f \<and>
        f (owner example_output) \<lparr>getSystemStage = 7\<rparr> [] = Inr 42 \<and>
        f (owner example_output) \<lparr>getSystemStage = 3\<rparr> [] = Inr 18"
    using f(1) v by blast
  have s: "\<not> getSystemStage \<lparr>getSystemStage = 7\<rparr> < dependsOnStage example_output"
    "getSystemStage \<lparr>getSystemStage = 3\<rparr> < dependsOnStage example_output"
    using f(4) by simp_all
  show ?thesis using a1 b1 c1 d1 e1 f(2) u(1,2) r(2) x s by blast
qed

text \<open>
  Claim C10, as stated, says that a non-list output always has exactly one channel. The
  default constructor yields a non-list output without any channel.
\<close>

theorem Output_default_has_no_channel:
  "\<not> isList (Output_default 10 :: (state, int) output_T) \<and>
   channels (Output_default 10 :: (state, int) output_T) = Map.empty \<and>
   \<not> one_channel (Output_default 10 :: (state, int) output_T)"
  by (simp add: Output_default_def one_channel_def)

text \<open>
  Claim C10, amended. A non-list output built by the four-argument constructor has
  exactly one channel, named \<open>one\<close> and pointing to the output. \<^verbatim>\<open>clearChannels\<close> and
  \<^verbatim>\<open>addChannel\<close> raise for every non-list output and leave it as it was. Copy
  construction keeps the keys of the channel map, the list flag, and every channel's
  name and cached result, and resets every channel's pointer to the copy; so the copy of
  an output with the single channel \<open>one\<close> has the single channel \<open>one\<close>. (Copy assignment
  is not part of the statement.)
\<close>

theorem Output_channel_map:
  fixes out source :: "('s, 'T) output_T"
  shows
    "one_channel (Output this nm fcn stg False :: ('s, 'T) output_T) \<and>
     channels (Output this nm fcn stg False :: ('s, 'T) output_T) ''one'' = Some (Channel this ''one'') \<and>
     (\<not> isList out \<longrightarrow>
        clearChannels out = (Some (Exception ''TODO''), out) \<and>
        addChannel this out channelName = (Some (Exception ''TODO''), out)) \<and>
     dom (channels (Output_copy copy_ptr that source)) = dom (channels source) \<and>
     isList (Output_copy copy_ptr that source) = isList source \<and>
     (\<forall>k c. channels source k = Some c \<longrightarrow>
        channels (Output_copy copy_ptr that source) k = Some (c\<lparr>channel_output := Some that\<rparr>)) \<and>
     (one_channel source \<longrightarrow> one_channel (Output_copy copy_ptr that source))"
proof -
  have 1: "one_channel (Output this nm fcn stg False :: ('s, 'T) output_T)"
    by (simp add: one_channel_def Output_def Channel_def)
  have 2: "channels (Output this nm fcn stg False :: ('s, 'T) output_T) ''one'' = Some (Channel this ''one'')"
    by (simp add: Output_def)
  have 3: "\<not> isList out \<longrightarrow>
        clearChannels out = (Some (Exception ''TODO''), out) \<and>
        addChannel this out channelName = (Some (Exception ''TODO''), out)"
    by (simp add: clearChannels_def addChannel_def)
  have 4: "dom (channels (Output_copy copy_ptr that source)) = dom (channels source)"
    by (auto simp: Output_copy_def dom_def split: option.splits)
  have 5: "isList (Output_copy copy_ptr that source) = isList source"
    by (simp add: Output_copy_def)
  have 6: "\<forall>k c. channels source k = Some c \<longrightarrow>
        channels (Output_copy copy_ptr that source) k = Some (c\<lparr>channel_output := Some that\<rparr>)"
    by (simp add: Output_copy_def)
  have 7: "one_channel source \<longrightarrow> one_channel (Output_copy copy_ptr that source)"
    using 4 6 unfolding one_channel_def by (auto simp: Output_copy_def split: option.splits)
  show ?thesis using 1 2 3 4 5 6 7 by blast
qed

theorem Output_channel_map_witness:
  "\<not> isList example_output \<and> one_channel example_output \<and>
   clearChannels example_output = (Some (Exception ''TODO''), example_output) \<and>
   addChannel 100 example_output ''two'' = (Some (Exception ''TODO''), example_output) \<and>
   channels example_output ''one'' =
     Some \<lparr>channel_result = None, channel_output = Some 100, channel_name = ''one''\<rparr> \<and>
   channels (Output_copy (\<lambda>p. None) 200 example_output) ''one'' =
     Some \<lparr>channel_result = None, channel_output = Some 200, channel_name = ''one''\<rparr> \<and>
   one_channel (Output_copy (\<lambda>p. None) 200 example_output)"
proof -
  have n: "\<not> isList example_output" by (simp add: example_output_def Output_def)
  have c: "channels example_output ''one'' =
     Some \<lparr>channel_result = None, channel_output = Some 100, channel_name = ''one''\<rparr>"
    by (simp add: example_output_def Output_def Channel_def)
  have o: "one_channel example_output"
    by (simp add: example_output_def Output_def Channel_def one_channel_def)
  note t = Output_channel_map[of 100 "''position''" "outputFcn example_output" 5 example_output
      "''two''" "\<lambda>p. None" 200 example_output]
  have "clearChannels example_output = (Some (Exception ''TODO''), example_output)"
    "addChannel 100 example_output ''two'' = (Some (Exception ''TODO''), example_output)"
    "channels (Output_copy (\<lambda>p. None) 200 example_output) ''one'' =
       Some \<lparr>channel_result = None, channel_output = Some 200, channel_name = ''one''\<rparr>"
    "one_channel (Output_copy (\<lambda>p. None) 200 example_output)"
    using t n c o by simp_all
  with n c o show ?thesis by blast
qed

end
